theory Spec2Isabelle
  imports Main
begin

section \<open>Values exchanged with the Core\<close>

type_synonym msg_id = string
type_synonym unix_time = int

text \<open>
  A JavaScript \<^verbatim>\<open>number\<close> as far as \<^verbatim>\<open>MinimumAutoReconnectMillis\<close> needs it: a whole
  number of milliseconds, or \<^verbatim>\<open>NaN\<close>.
\<close>

datatype js_number = NaN | Num int

text \<open>
  Error objects. \<^verbatim>\<open>new DisconnectedError(host)\<close> is built by the controller itself; every
  other error reaches it from outside (a response payload, a rejected promise) and is seen
  through its \<^verbatim>\<open>name\<close>, its optional \<^verbatim>\<open>isDisconnecting\<close> property and whether it is an
  instance of \<^verbatim>\<open>CanceledPromiseError\<close>.
\<close>

datatype js_error =
    DisconnectedError string
  | ErrorObj string string "bool option" bool
    \<comment> \<open>name, message, the \<^verbatim>\<open>isDisconnecting\<close> property (absent, or a boolean),
        \<^verbatim>\<open>instanceof CanceledPromiseError\<close>\<close>

text \<open>
  Modelled from the spec: \<^verbatim>\<open>errors/DisconnectedError.ts\<close> is not among the sources. The spec
  says a DisconnectedError carries the host identity; its \<^verbatim>\<open>name\<close> is taken to be the class
  name.
\<close>

fun error_name :: "js_error \<Rightarrow> string" where
  "error_name (DisconnectedError h) = ''DisconnectedError''"
| "error_name (ErrorObj n m d c) = n"

text \<open>\<^verbatim>\<open>(responseError as any).isDisconnecting === true\<close>\<close>

fun isDisconnecting_is_true :: "js_error \<Rightarrow> bool" where
  "isDisconnecting_is_true (DisconnectedError h) = False"
| "isDisconnecting_is_true (ErrorObj n m d c) = (d = Some True)"

text \<open>\<^verbatim>\<open>delete (responseError as any).isDisconnecting\<close>\<close>

fun delete_isDisconnecting :: "js_error \<Rightarrow> js_error" where
  "delete_isDisconnecting (DisconnectedError h) = DisconnectedError h"
| "delete_isDisconnecting (ErrorObj n m d c) = ErrorObj n m None c"

text \<open>
  \<^verbatim>\<open>error instanceof CanceledPromiseError\<close>. Whether the class DisconnectedError extends
  CanceledPromiseError is declared in a file that is not among the sources, so it is the
  parameter \<open>dc\<close>.
\<close>

fun instanceof_CanceledPromiseError :: "bool \<Rightarrow> js_error \<Rightarrow> bool" where
  "instanceof_CanceledPromiseError dc (DisconnectedError h) = dc"
| "instanceof_CanceledPromiseError dc (ErrorObj n m d c) = c"

definition isBrowserLaunchError :: "js_error \<Rightarrow> bool" where
  "isBrowserLaunchError e \<longleftrightarrow>
     error_name e = ''BrowserLaunchError'' \<or> error_name e = ''DependenciesMissingError''"

text \<open>\<^verbatim>\<open>SessionClosedOrMissingError.name\<close>: the name of the class.\<close>

definition SessionClosedOrMissingError_name :: string where
  "SessionClosedOrMissingError_name = ''SessionClosedOrMissingError''"

datatype js_data = Null | Undefined | Value string | Err js_error

text \<open>
  An inbound transport message. A field is \<open>None\<close> when the key is absent
  (\<^verbatim>\<open>'responseId' in payload\<close> is false).
\<close>

record message =
  responseId :: "msg_id option"
  listenerId :: "string option"
  eventType :: "string option"
  data :: js_data

record request_payload =
  command :: string
  args :: string
  commandId :: "nat option"
  payloadStartTime :: "unix_time option"

section \<open>The pending request registry\<close>

text \<open>
  Modelled from the spec: \<^verbatim>\<open>PendingMessages.ts\<close> is not among the sources; section 4.1 of
  the spec gives its contract and section 3 the fields of an entry. The futures handed out
  by \<^verbatim>\<open>create\<close> live on after their entry has left the registry, so the registry keeps,
  beside the pending entries, the settlements in the order they happened. Timers are not
  modelled.
\<close>

record pending_entry =
  createdAt :: unix_time
  entryTimeoutMs :: "int option"
  bypassesConnectionCheck :: bool

datatype settlement = Resolved_with js_data | Rejected_with js_error

record registry =
  lastId :: nat
  pending :: "(msg_id \<times> pending_entry) list"
  settled :: "(msg_id \<times> settlement) list"

text \<open>The decimal numeral of a counter value: its digits, the last one first, onto \<open>acc\<close>.\<close>

definition digit_of :: "nat \<Rightarrow> char" where
  "digit_of d = ''0123456789'' ! (d mod 10)"

function digits_onto :: "nat \<Rightarrow> string \<Rightarrow> string" where
  "digits_onto n acc =
     (let acc' = digit_of n # acc
      in if n div 10 = 0 then acc' else digits_onto (n div 10) acc')"
  by pat_completeness auto
termination
  by (relation "measure fst") auto

declare digits_onto.simps [simp del]

definition id_of_counter :: "nat \<Rightarrow> msg_id" where
  "id_of_counter n = digits_onto n []"

text \<open>
  Modelled from the spec: \<^verbatim>\<open>create(timeoutMs?, bypassesConnectionCheck)\<close> allocates a fresh
  unique id and stores a pending entry. The ids are the numerals of a counter.
\<close>

definition pm_create :: "unix_time \<Rightarrow> int option \<Rightarrow> bool \<Rightarrow> registry \<Rightarrow> msg_id \<times> registry" where
  "pm_create now t bypass r =
     (let n = Suc (lastId r); i = id_of_counter n
      in (i, r\<lparr>lastId := n,
                pending := pending r @
                  [(i, \<lparr>createdAt = now, entryTimeoutMs = t, bypassesConnectionCheck = bypass\<rparr>)]\<rparr>))"

text \<open>Modelled from the spec: \<^verbatim>\<open>delete(id)\<close> removes an entry without settling it.\<close>

definition pm_delete :: "msg_id \<Rightarrow> registry \<Rightarrow> registry" where
  "pm_delete i r = r\<lparr>pending := filter (\<lambda>p. fst p \<noteq> i) (pending r)\<rparr>"

text \<open>
  Modelled from the spec: \<^verbatim>\<open>resolve(id, value)\<close> and \<^verbatim>\<open>reject(id, error)\<close> settle the
  entry's future and remove the entry; they do nothing if the id is unknown.
\<close>

definition pm_settle :: "msg_id \<Rightarrow> settlement \<Rightarrow> registry \<Rightarrow> registry" where
  "pm_settle i x r =
     (case map_of (pending r) i of
        None \<Rightarrow> r
      | Some entry \<Rightarrow> (pm_delete i r)\<lparr>settled := settled r @ [(i, x)]\<rparr>)"

definition pm_resolve :: "msg_id \<Rightarrow> js_data \<Rightarrow> registry \<Rightarrow> registry" where
  "pm_resolve i v r = pm_settle i (Resolved_with v) r"

definition pm_reject :: "msg_id \<Rightarrow> js_error \<Rightarrow> registry \<Rightarrow> registry" where
  "pm_reject i e r = pm_settle i (Rejected_with e) r"

text \<open>
  Modelled from the spec: \<^verbatim>\<open>cancel(error)\<close> settles every pending entry's future with
  failure using the error, then clears the registry.
\<close>

definition pm_cancel :: "js_error \<Rightarrow> registry \<Rightarrow> registry" where
  "pm_cancel e r =
     r\<lparr>settled := settled r @ map (\<lambda>p. (fst p, Rejected_with e)) (pending r),
       pending := []\<rparr>"

text \<open>What the future of request \<open>i\<close> has been settled with, if it has been.\<close>

definition outcome_of_request :: "registry \<Rightarrow> msg_id \<Rightarrow> settlement option" where
  "outcome_of_request r i = map_of (settled r) i"

definition is_pending :: "registry \<Rightarrow> msg_id \<Rightarrow> bool" where
  "is_pending r i \<longleftrightarrow> map_of (pending r) i \<noteq> None"

section \<open>The connection lifecycle controller\<close>

text \<open>
  \<^verbatim>\<open>Resolvable\<close>, of the library \<^verbatim>\<open>@ulixee/commons\<close>: a promise that is settled once;
  \<^verbatim>\<open>resolve\<close> and \<^verbatim>\<open>reject\<close> do nothing when it is already settled (\<^verbatim>\<open>isResolved\<close> is true
  after either).
\<close>

datatype outcome = Pending | Resolved | Rejected js_error

definition resolvable_resolve :: "outcome \<Rightarrow> outcome" where
  "resolvable_resolve p = (case p of Pending \<Rightarrow> Resolved | _ \<Rightarrow> p)"

definition resolvable_reject :: "js_error \<Rightarrow> outcome \<Rightarrow> outcome" where
  "resolvable_reject e p = (case p of Pending \<Rightarrow> Rejected e | _ \<Rightarrow> p)"

definition isResolved :: "outcome \<Rightarrow> bool" where
  "isResolved p \<longleftrightarrow> p \<noteq> Pending"

text \<open>
  \<^verbatim>\<open>IConnectAction\<close>. An absent \<^verbatim>\<open>isCallingHook\<close> is falsy and is \<open>False\<close> here; an absent
  or null \<^verbatim>\<open>hookMessageId\<close> is \<open>None\<close>; \<^verbatim>\<open>isAutomatic\<close> holds \<^verbatim>\<open>options.isAutoConnect\<close> as it
  was passed, \<open>None\<close> when it was left out.
\<close>

record action =
  isCallingHook :: bool
  hookMessageId :: "msg_id option"
  startTime :: unix_time
  isAutomatic :: "bool option"
  resolvable :: outcome
  error :: "js_error option"

record hooks =
  afterConnectFn :: bool
  beforeDisconnectFn :: bool
  afterDisconnectHook :: bool

record envelope =
  payload :: request_payload
  messageId :: msg_id
  sendTime :: unix_time

text \<open>What the controller does to the outside, in the order it does it.\<close>

datatype effect =
    Emit_connected
  | Emit_disconnected
  | Emit_event message
  | Transport_connect "int option"
  | Transport_disconnect
  | Transport_send envelope
  | Call_afterConnectFn nat
  | Call_beforeDisconnectFn nat
  | Call_afterDisconnectHook
  | Log_stats string
  | Log_error string js_error

text \<open>
  What the controller is given: the transport (its \<^verbatim>\<open>host\<close>, and whether it has the optional
  \<^verbatim>\<open>connect\<close> and \<^verbatim>\<open>disconnect\<close> methods), the static \<^verbatim>\<open>MinimumAutoReconnectMillis\<close> of the
  class, and whether DisconnectedError is a CanceledPromiseError.
\<close>

record config =
  host :: string
  transportHasConnect :: bool
  transportHasDisconnect :: bool
  MinimumAutoReconnectMillis :: js_number
  disconnectedIsCanceled :: bool

text \<open>
  The fields of the class. Action objects are shared between the fields and the local
  variables of suspended calls, so they live in \<open>heap\<close> and are referred to by index.
\<close>

record controller =
  connectAction :: "nat option"
  disconnectAction :: "nat option"
  autoReconnect :: bool
  hooks :: hooks
  pendingMessages :: registry
  didCallConnectionTerminated :: bool
  lastDisconnectDate :: "unix_time option"
  heap :: "action list"
  effects :: "effect list"

definition default_config :: "string \<Rightarrow> config" where
  "default_config h =
     \<lparr>host = h, transportHasConnect = True, transportHasDisconnect = True,
      MinimumAutoReconnectMillis = Num 1000, disconnectedIsCanceled = True\<rparr>"

definition new_controller :: "hooks \<Rightarrow> controller" where
  "new_controller hs =
     \<lparr>connectAction = None, disconnectAction = None, autoReconnect = True, hooks = hs,
      pendingMessages = \<lparr>lastId = 0, pending = [], settled = []\<rparr>,
      didCallConnectionTerminated = False, lastDisconnectDate = None,
      heap = [], effects = []\<rparr>"

definition get_action :: "controller \<Rightarrow> nat \<Rightarrow> action option" where
  "get_action s a = (if a < length (heap s) then Some (heap s ! a) else None)"

definition upd_action :: "nat \<Rightarrow> (action \<Rightarrow> action) \<Rightarrow> controller \<Rightarrow> controller" where
  "upd_action a f s = s\<lparr>heap := (heap s)[a := f (heap s ! a)]\<rparr>"

definition new_action :: "action \<Rightarrow> controller \<Rightarrow> nat \<times> controller" where
  "new_action act s = (length (heap s), s\<lparr>heap := heap s @ [act]\<rparr>)"

definition do_effect :: "effect \<Rightarrow> controller \<Rightarrow> controller" where
  "do_effect x s = s\<lparr>effects := effects s @ [x]\<rparr>"

text \<open>\<^verbatim>\<open>this.disconnectAction?.isCallingHook\<close>, for either field.\<close>

definition calling_hook :: "controller \<Rightarrow> nat option \<Rightarrow> bool" where
  "calling_hook s r =
     (case r of None \<Rightarrow> False
      | Some a \<Rightarrow> (case get_action s a of None \<Rightarrow> False | Some act \<Rightarrow> isCallingHook act))"

text \<open>
  \<^verbatim>\<open>this.connectAction?.hookMessageId\<close> where it is tested for truthiness: the id when the
  action is there and its tag is a non-empty string.
\<close>

definition hook_request :: "controller \<Rightarrow> nat option \<Rightarrow> msg_id option" where
  "hook_request s r =
     (case r of None \<Rightarrow> None
      | Some a \<Rightarrow>
          (case get_action s a of None \<Rightarrow> None
           | Some act \<Rightarrow>
               (case hookMessageId act of None \<Rightarrow> None
                | Some i \<Rightarrow> if i = [] then None else Some i)))"

text \<open>\<^verbatim>\<open>this.connectAction.isAutomatic\<close>, tested for truthiness.\<close>

definition connectAction_isAutomatic :: "controller \<Rightarrow> bool" where
  "connectAction_isAutomatic s =
     (case connectAction s of None \<Rightarrow> False
      | Some a \<Rightarrow>
          (case get_action s a of None \<Rightarrow> False | Some act \<Rightarrow> isAutomatic act = Some True))"

definition outcome_of_action :: "controller \<Rightarrow> nat \<Rightarrow> outcome option" where
  "outcome_of_action s a = map_option resolvable (get_action s a)"

subsection \<open>shouldAutoConnect\<close>

definition shouldAutoConnect :: "config \<Rightarrow> unix_time \<Rightarrow> controller \<Rightarrow> bool" where
  "shouldAutoConnect cfg now s =
     (if \<not> autoReconnect s \<or> connectAction s \<noteq> None then False
      else if hook_request s (disconnectAction s) \<noteq> None then False
      else case lastDisconnectDate s of
             None \<Rightarrow> True
           | Some lastDisconnect \<Rightarrow>
               (case MinimumAutoReconnectMillis cfg of
                  NaN \<Rightarrow> False
                | Num reconnectMillis \<Rightarrow> now - lastDisconnect \<ge> reconnectMillis))"

subsection \<open>Inbound routing\<close>

definition onResponse :: "config \<Rightarrow> msg_id \<Rightarrow> js_data \<Rightarrow> controller \<Rightarrow> controller" where
  "onResponse cfg i d s =
     (case d of
        Err e \<Rightarrow>
          (let isDisconnected =
                 (disconnectAction s \<noteq> None \<or>
                  error_name e = SessionClosedOrMissingError_name \<or>
                  isDisconnecting_is_true e);
               responseError = delete_isDisconnecting e;
               responseError =
                 (if isDisconnected \<and> \<not> isBrowserLaunchError responseError
                  then DisconnectedError (host cfg) else responseError)
           in s\<lparr>pendingMessages := pm_reject i responseError (pendingMessages s)\<rparr>)
      | _ \<Rightarrow> s\<lparr>pendingMessages := pm_resolve i d (pendingMessages s)\<rparr>)"

definition onEvent :: "message \<Rightarrow> controller \<Rightarrow> controller" where
  "onEvent m s = do_effect (Emit_event m) s"

definition onMessage :: "config \<Rightarrow> message \<Rightarrow> controller \<Rightarrow> controller" where
  "onMessage cfg m s =
     (case responseId m of
        Some i \<Rightarrow> onResponse cfg i (data m) s
      | None \<Rightarrow>
          if listenerId m \<noteq> None \<or> eventType m \<noteq> None then onEvent m s else s)"

subsection \<open>Asynchronous calls\<close>

text \<open>
  An \<^verbatim>\<open>async\<close> method runs without interruption from one \<^verbatim>\<open>await\<close> to the next. Each
  stretch is a function on the controller; it says where the call now waits, and the
  stretch that follows takes what the awaited promise settled with (\<open>Inl\<close> a rejection).
  Other calls may run while a call waits, so the stretch that follows starts from any state.

  A call ends by returning a value (\<^verbatim>\<open>return;\<close>, or the promise of an action's
  \<^verbatim>\<open>resolvable\<close>, whose outcome the caller then observes) or by throwing, which rejects
  the promise the caller holds.
\<close>

datatype returned = Ret_void | Ret_promise nat

text \<open>What the caller of a call that returned \<open>r\<close> observes, in state \<open>s\<close>.\<close>

definition observed :: "controller \<Rightarrow> returned \<Rightarrow> outcome option" where
  "observed s r = (case r of Ret_void \<Rightarrow> Some Resolved | Ret_promise a \<Rightarrow> outcome_of_action s a)"

text \<open>
  A lifecycle hook wrapper, once entered: it returned at once, or it set \<^verbatim>\<open>isCallingHook\<close>
  on an action and awaits the user's function (if one is configured; otherwise
  \<^verbatim>\<open>await undefined\<close>).
\<close>

datatype hook_wait = Hook_skipped | Hook_running nat bool

text \<open>What the awaited expression of the wrapper settles with, given the user function's result.\<close>

definition hook_result :: "hook_wait \<Rightarrow> js_error + unit \<Rightarrow> js_error + unit" where
  "hook_result h res =
     (case h of Hook_skipped \<Rightarrow> Inr () | Hook_running a called \<Rightarrow> if called then res else Inr ())"

record connect_options =
  timeoutMs :: "int option"
  isAutoConnect :: "bool option"
  shouldAutoReconnect :: "bool option"

datatype connect_state =
    Connect_returned returned
  | Connect_await_transport nat
  | Connect_await_hook nat hook_wait

subsubsection \<open>afterConnectHook\<close>

definition afterConnectHook_enter :: "controller \<Rightarrow> hook_wait \<times> controller" where
  "afterConnectHook_enter s =
     (if disconnectAction s \<noteq> None then (Hook_skipped, s)
      else case connectAction s of
        None \<Rightarrow> (Hook_skipped, s)
      | Some a \<Rightarrow>
          (case get_action s a of
             None \<Rightarrow> (Hook_skipped, s)
           | Some act \<Rightarrow>
               if isResolved (resolvable act) then (Hook_skipped, s)
               else
                 let s1 = upd_action a (\<lambda>x. x\<lparr>isCallingHook := True\<rparr>) s
                 in if afterConnectFn (hooks s1)
                    then (Hook_running a True, do_effect (Call_afterConnectFn a) s1)
                    else (Hook_running a False, s1)))"

definition afterConnectHook_leave :: "hook_wait \<Rightarrow> controller \<Rightarrow> controller" where
  "afterConnectHook_leave h s =
     (case h of
        Hook_skipped \<Rightarrow> s
      | Hook_running a called \<Rightarrow> upd_action a (\<lambda>x. x\<lparr>isCallingHook := False\<rparr>) s)"

subsubsection \<open>connect\<close>

text \<open>The \<^verbatim>\<open>catch\<close> block of \<^verbatim>\<open>connect\<close>, and the \<^verbatim>\<open>return\<close> after it.\<close>

definition connect_catch :: "nat \<Rightarrow> js_error \<Rightarrow> controller \<Rightarrow> connect_state \<times> controller" where
  "connect_catch a err s =
     (let s1 = s\<lparr>connectAction := None\<rparr>;
          s2 = upd_action a (\<lambda>x. x\<lparr>resolvable := resolvable_reject err (resolvable x)\<rparr>) s1
      in (Connect_returned (Ret_promise a), s2))"

text \<open>From the call to the first \<^verbatim>\<open>await\<close>.\<close>

definition connect_enter ::
  "config \<Rightarrow> connect_options \<Rightarrow> unix_time \<Rightarrow> controller \<Rightarrow> connect_state \<times> controller" where
  "connect_enter cfg options now s =
     (if calling_hook s (disconnectAction s) then (Connect_returned Ret_void, s)
      else case connectAction s of
        Some a \<Rightarrow> (Connect_returned (Ret_promise a), s)
      | None \<Rightarrow>
          let s1 = (case shouldAutoReconnect options of
                      None \<Rightarrow> s
                    | Some b \<Rightarrow> s\<lparr>autoReconnect := b\<rparr>);
              (a, s2) = new_action
                          \<lparr>isCallingHook = False, hookMessageId = None, startTime = now,
                           isAutomatic = isAutoConnect options, resolvable = Pending,
                           error = None\<rparr> s1;
              s3 = s2\<lparr>disconnectAction := None\<rparr>;
              s4 = s3\<lparr>connectAction := Some a\<rparr>;
              s5 = (if transportHasConnect cfg
                    then do_effect (Transport_connect (timeoutMs options)) s4 else s4)
          in (Connect_await_transport a, s5))"

text \<open>After \<^verbatim>\<open>await this.transport.connect?.(timeoutMs)\<close>, to the next \<^verbatim>\<open>await\<close>.\<close>

definition connect_after_transport ::
  "nat \<Rightarrow> js_error + unit \<Rightarrow> controller \<Rightarrow> connect_state \<times> controller" where
  "connect_after_transport a res s =
     (case res of
        Inl err \<Rightarrow> connect_catch a err s
      | Inr u \<Rightarrow>
          let s1 = s\<lparr>didCallConnectionTerminated := False\<rparr>;
              (h, s2) = afterConnectHook_enter s1
          in (Connect_await_hook a h, s2))"

text \<open>
  After the user's after-connect function has settled: the \<^verbatim>\<open>finally\<close> of
  \<^verbatim>\<open>afterConnectHook\<close>, then the rest of \<^verbatim>\<open>connect\<close>.
\<close>

definition connect_after_hook ::
  "nat \<Rightarrow> hook_wait \<Rightarrow> js_error + unit \<Rightarrow> controller \<Rightarrow> connect_state \<times> controller" where
  "connect_after_hook a h res s =
     (let s1 = afterConnectHook_leave h s
      in case hook_result h res of
           Inl err \<Rightarrow> connect_catch a err s1
         | Inr u \<Rightarrow>
             let s2 = upd_action a (\<lambda>x. x\<lparr>resolvable := resolvable_resolve (resolvable x)\<rparr>) s1;
                 s3 = do_effect Emit_connected s2
             in (Connect_returned (Ret_promise a), s3))"

subsubsection \<open>onConnectionTerminated\<close>

text \<open>
  \<^verbatim>\<open>if (this.connectAction?.hookMessageId) this.onResponse({responseId: ..., data:
  !this.connectAction.isAutomatic ? new DisconnectedError(this.transport.host) : null})\<close>
\<close>

definition settle_connect_hook_request :: "config \<Rightarrow> controller \<Rightarrow> controller" where
  "settle_connect_hook_request cfg s =
     (case hook_request s (connectAction s) of
        None \<Rightarrow> s
      | Some i \<Rightarrow>
          onResponse cfg i
            (if \<not> connectAction_isAutomatic s then Err (DisconnectedError (host cfg)) else Null)
            s)"

text \<open>
  \<^verbatim>\<open>if (this.disconnectAction?.hookMessageId) this.onResponse({responseId: ..., data: null})\<close>
\<close>

definition settle_disconnect_hook_request :: "config \<Rightarrow> controller \<Rightarrow> controller" where
  "settle_disconnect_hook_request cfg s =
     (case hook_request s (disconnectAction s) of
        None \<Rightarrow> s
      | Some i \<Rightarrow> onResponse cfg i Null s)"

text \<open>
  From the call to \<^verbatim>\<open>await this.hooks.afterDisconnectHook?.()\<close>. The boolean says whether
  the after-disconnect hook was called and is now awaited.
\<close>

definition onConnectionTerminated_enter ::
  "config \<Rightarrow> unix_time \<Rightarrow> controller \<Rightarrow> bool \<times> controller" where
  "onConnectionTerminated_enter cfg now s =
     (if didCallConnectionTerminated s then (False, s)
      else
        let s1 = s\<lparr>lastDisconnectDate := Some now\<rparr>;
            s2 = s1\<lparr>didCallConnectionTerminated := True\<rparr>;
            s3 = do_effect Emit_disconnected s2;
            s4 = settle_connect_hook_request cfg s3;
            s5 = s4\<lparr>connectAction := None\<rparr>;
            s6 = settle_disconnect_hook_request cfg s5;
            s7 = s6\<lparr>pendingMessages := pm_cancel (DisconnectedError (host cfg)) (pendingMessages s6)\<rparr>
        in if afterDisconnectHook (hooks s7)
           then (True, do_effect Call_afterDisconnectHook s7)
           else (False, s7))"

text \<open>
  What the promise of \<^verbatim>\<open>onConnectionTerminated\<close> settles with: the function has no
  \<^verbatim>\<open>try\<close>, so it is what the awaited hook settled with.
\<close>

definition onConnectionTerminated_outcome :: "bool \<Rightarrow> js_error + unit \<Rightarrow> js_error + unit" where
  "onConnectionTerminated_outcome called res = (if called then res else Inr ())"

subsubsection \<open>beforeDisconnectHook\<close>

definition beforeDisconnectHook_enter :: "controller \<Rightarrow> hook_wait \<times> controller" where
  "beforeDisconnectHook_enter s =
     (case disconnectAction s of
        None \<Rightarrow> (Hook_skipped, s)
      | Some d \<Rightarrow>
          let s1 = upd_action d (\<lambda>x. x\<lparr>isCallingHook := True\<rparr>) s
          in if beforeDisconnectFn (hooks s1)
             then (Hook_running d True, do_effect (Call_beforeDisconnectFn d) s1)
             else (Hook_running d False, s1))"

text \<open>The \<^verbatim>\<open>catch\<close> and \<^verbatim>\<open>finally\<close> of \<^verbatim>\<open>beforeDisconnectHook\<close>.\<close>

definition beforeDisconnectHook_leave ::
  "hook_wait \<Rightarrow> js_error + unit \<Rightarrow> controller \<Rightarrow> controller" where
  "beforeDisconnectHook_leave h res s =
     (case h of
        Hook_skipped \<Rightarrow> s
      | Hook_running d called \<Rightarrow>
          let s1 = (case hook_result h res of
                      Inl err \<Rightarrow> do_effect (Log_error ''Error in beforeDisconnect hook'' err) s
                    | Inr u \<Rightarrow> s)
          in upd_action d (\<lambda>x. x\<lparr>isCallingHook := False\<rparr>) s1)"

subsubsection \<open>disconnect\<close>

datatype disconnect_state =
    Disconnect_returned returned
  | Disconnect_threw js_error
  | Disconnect_await_before_hook nat hook_wait
  | Disconnect_await_teardown nat bool

text \<open>The \<^verbatim>\<open>finally\<close> block of \<^verbatim>\<open>disconnect\<close>.\<close>

definition disconnect_finally :: "nat \<Rightarrow> controller \<Rightarrow> controller" where
  "disconnect_finally d s =
     upd_action d (\<lambda>x. x\<lparr>resolvable := resolvable_resolve (resolvable x)\<rparr>) s"

text \<open>From the call to \<^verbatim>\<open>await this.hooks.beforeDisconnectFn?.(disconnectAction)\<close>.\<close>

definition disconnect_enter ::
  "config \<Rightarrow> js_error option \<Rightarrow> unix_time \<Rightarrow> controller \<Rightarrow> disconnect_state \<times> controller" where
  "disconnect_enter cfg fatalError now s =
     (let s1 = s\<lparr>autoReconnect := False\<rparr>
      in case disconnectAction s1 of
           Some d \<Rightarrow> (Disconnect_returned (Ret_promise d), s1)
         | None \<Rightarrow>
             let (d, s2) = new_action
                             \<lparr>isCallingHook = False, hookMessageId = None, startTime = now,
                              isAutomatic = Some False, resolvable = Pending,
                              error = fatalError\<rparr> s1;
                 s3 = s2\<lparr>disconnectAction := Some d\<rparr>;
                 s4 = do_effect (Log_stats ''ConnectionToCore.Disconnecting'') s3;
                 s5 = s4\<lparr>pendingMessages :=
                          pm_cancel (DisconnectedError (host cfg)) (pendingMessages s4)\<rparr>;
                 (h, s6) = beforeDisconnectHook_enter s5
             in (Disconnect_await_before_hook d h, s6))"

text \<open>
  After the user's before-disconnect function has settled: the rest of
  \<^verbatim>\<open>beforeDisconnectHook\<close>, \<^verbatim>\<open>this.transport.disconnect?.()\<close>, which throws \<open>e\<close> when
  \<open>thrown = Some e\<close>, and the call of \<^verbatim>\<open>onConnectionTerminated\<close> up to its \<^verbatim>\<open>await\<close>.
\<close>

definition disconnect_after_before_hook ::
  "config \<Rightarrow> nat \<Rightarrow> hook_wait \<Rightarrow> js_error + unit \<Rightarrow> js_error option \<Rightarrow> unix_time \<Rightarrow>
   controller \<Rightarrow> disconnect_state \<times> controller" where
  "disconnect_after_before_hook cfg d h res thrown now s =
     (let s1 = beforeDisconnectHook_leave h res s
      in if transportHasDisconnect cfg
         then let s2 = do_effect Transport_disconnect s1
              in case thrown of
                   Some err \<Rightarrow> (Disconnect_threw err, disconnect_finally d s2)
                 | None \<Rightarrow>
                     let (called, s3) = onConnectionTerminated_enter cfg now s2
                     in (Disconnect_await_teardown d called, s3)
         else let (called, s3) = onConnectionTerminated_enter cfg now s1
              in (Disconnect_await_teardown d called, s3))"

text \<open>After \<^verbatim>\<open>await this.onConnectionTerminated()\<close>, to the end of the call.\<close>

definition disconnect_after_teardown ::
  "nat \<Rightarrow> js_error + unit \<Rightarrow> controller \<Rightarrow> disconnect_state \<times> controller" where
  "disconnect_after_teardown d res s =
     (case res of
        Inl err \<Rightarrow> (Disconnect_threw err, disconnect_finally d s)
      | Inr u \<Rightarrow>
          let s1 = s\<lparr>connectAction := None\<rparr>;
              s2 = do_effect (Log_stats ''ConnectionToCore.Disconnected'') s1
          in (Disconnect_returned (Ret_promise d), disconnect_finally d s2))"

text \<open>
  A whole call of \<^verbatim>\<open>disconnect\<close> with nothing running in between: \<open>beforeRes\<close> is what the
  before-disconnect function settles with, \<open>thrown\<close> what the transport's \<^verbatim>\<open>disconnect\<close>
  throws, \<open>afterRes\<close> what the after-disconnect hook settles with; \<open>now\<close> and \<open>now'\<close> are the
  clock at the call and at the teardown.
\<close>

definition disconnect_run ::
  "config \<Rightarrow> js_error option \<Rightarrow> unix_time \<Rightarrow> js_error + unit \<Rightarrow> js_error option \<Rightarrow>
   unix_time \<Rightarrow> js_error + unit \<Rightarrow> controller \<Rightarrow> disconnect_state \<times> controller" where
  "disconnect_run cfg fatalError now beforeRes thrown now' afterRes s =
     (let (c1, s1) = disconnect_enter cfg fatalError now s
      in case c1 of
           Disconnect_await_before_hook d h \<Rightarrow>
             (let (c2, s2) = disconnect_after_before_hook cfg d h beforeRes thrown now' s1
              in case c2 of
                   Disconnect_await_teardown d' called \<Rightarrow>
                     disconnect_after_teardown d' (onConnectionTerminated_outcome called afterRes) s2
                 | _ \<Rightarrow> (c2, s2))
         | _ \<Rightarrow> (c1, s1))"

subsubsection \<open>sendRequest\<close>

datatype send_state =
    Send_returned js_data
  | Send_threw js_error
  | Send_await_connect "nat option" "nat option" connect_state
  | Send_await_response msg_id "nat option" "nat option"

text \<open>\<^verbatim>\<open>if (activeHook) activeHook.hookMessageId = id\<close>\<close>

definition set_hookMessageId :: "nat option \<Rightarrow> msg_id option \<Rightarrow> controller \<Rightarrow> controller" where
  "set_hookMessageId r v s =
     (case r of None \<Rightarrow> s | Some a \<Rightarrow> upd_action a (\<lambda>x. x\<lparr>hookMessageId := v\<rparr>) s)"

text \<open>From \<^verbatim>\<open>this.pendingMessages.create\<close> to the \<^verbatim>\<open>await\<close> of the response and the send.\<close>

definition sendRequest_send ::
  "nat option \<Rightarrow> nat option \<Rightarrow> request_payload \<Rightarrow> int option \<Rightarrow> unix_time \<Rightarrow>
   controller \<Rightarrow> send_state \<times> controller" where
  "sendRequest_send activeConnectHook activeDisconnectHook p t now s =
     (let (i, r) = pm_create now t (activeConnectHook \<noteq> None \<or> activeDisconnectHook \<noteq> None)
                     (pendingMessages s);
          s1 = s\<lparr>pendingMessages := r\<rparr>;
          s2 = set_hookMessageId activeConnectHook (Some i) s1;
          s3 = set_hookMessageId activeDisconnectHook (Some i) s2;
          s4 = do_effect (Transport_send \<lparr>payload = p, messageId = i, sendTime = now\<rparr>) s3
      in (Send_await_response i activeConnectHook activeDisconnectHook, s4))"

text \<open>From the call to the first \<^verbatim>\<open>await\<close>.\<close>

definition sendRequest_enter ::
  "config \<Rightarrow> request_payload \<Rightarrow> int option \<Rightarrow> unix_time \<Rightarrow> controller \<Rightarrow>
   send_state \<times> controller" where
  "sendRequest_enter cfg p t now s =
     (let activeConnectHook =
            (if calling_hook s (connectAction s) then connectAction s else None);
          activeDisconnectHook =
            (if calling_hook s (disconnectAction s) then disconnectAction s else None)
      in if shouldAutoConnect cfg now s
         then let (c, s1) = connect_enter cfg
                              \<lparr>timeoutMs = t, isAutoConnect = Some True,
                               shouldAutoReconnect = None\<rparr> now s
              in (Send_await_connect activeConnectHook activeDisconnectHook c, s1)
         else sendRequest_send activeConnectHook activeDisconnectHook p t now s)"

text \<open>After \<^verbatim>\<open>await this.connect(...)\<close>, which is outside the \<^verbatim>\<open>try\<close>.\<close>

definition sendRequest_after_connect ::
  "nat option \<Rightarrow> nat option \<Rightarrow> request_payload \<Rightarrow> int option \<Rightarrow> js_error + unit \<Rightarrow>
   unix_time \<Rightarrow> controller \<Rightarrow> send_state \<times> controller" where
  "sendRequest_after_connect activeConnectHook activeDisconnectHook p t res now s =
     (case res of
        Inl err \<Rightarrow> (Send_threw err, s)
      | Inr u \<Rightarrow> sendRequest_send activeConnectHook activeDisconnectHook p t now s)"

text \<open>
  After \<^verbatim>\<open>await Promise.all([promise, this.transport.send(...)])\<close>: \<open>res\<close> is the response
  when both settled well, and the first failure otherwise. The \<^verbatim>\<open>catch\<close> block, then the
  \<^verbatim>\<open>finally\<close> block.
\<close>

definition sendRequest_settle ::
  "config \<Rightarrow> msg_id \<Rightarrow> nat option \<Rightarrow> nat option \<Rightarrow> js_error + js_data \<Rightarrow> controller \<Rightarrow>
   send_state \<times> controller" where
  "sendRequest_settle cfg i activeConnectHook activeDisconnectHook res s =
     (let (r, s1) =
            (case res of
               Inr result \<Rightarrow> (Send_returned result, s)
             | Inl err \<Rightarrow>
                 let s' = s\<lparr>pendingMessages := pm_delete i (pendingMessages s)\<rparr>
                 in if disconnectAction s' \<noteq> None \<and>
                       instanceof_CanceledPromiseError (disconnectedIsCanceled cfg) err
                    then (Send_returned Undefined, s')
                    else (Send_threw err, s'));
          s2 = set_hookMessageId activeConnectHook None s1;
          s3 = set_hookMessageId activeDisconnectHook None s2
      in (r, s3))"

subsection \<open>Interleavings\<close>

text \<open>
  What can happen to a controller: a call of a public method, the settling of a promise a
  suspended call awaits, a message or the \<^verbatim>\<open>disconnected\<close> event of the transport. A run is
  any sequence of these, each with any arguments, so it covers every interleaving of the
  calls the event loop can produce (and more).
\<close>

datatype stretch =
    Call_connect connect_options unix_time
  | Transport_connect_settled nat "js_error + unit"
  | AfterConnectFn_settled nat hook_wait "js_error + unit"
  | Call_disconnect "js_error option" unix_time
  | BeforeDisconnectFn_settled nat hook_wait "js_error + unit" "js_error option" unix_time
  | Teardown_settled nat "js_error + unit"
  | Call_sendRequest request_payload "int option" unix_time
  | Connect_settled_for_send "nat option" "nat option" request_payload "int option"
      "js_error + unit" unix_time
  | Response_settled msg_id "nat option" "nat option" "js_error + js_data"
  | Transport_message message
  | Transport_disconnected unix_time

fun run_stretch :: "config \<Rightarrow> stretch \<Rightarrow> controller \<Rightarrow> controller" where
  "run_stretch cfg (Call_connect options now) s = snd (connect_enter cfg options now s)"
| "run_stretch cfg (Transport_connect_settled a res) s = snd (connect_after_transport a res s)"
| "run_stretch cfg (AfterConnectFn_settled a h res) s = snd (connect_after_hook a h res s)"
| "run_stretch cfg (Call_disconnect fatalError now) s = snd (disconnect_enter cfg fatalError now s)"
| "run_stretch cfg (BeforeDisconnectFn_settled d h res thrown now) s =
     snd (disconnect_after_before_hook cfg d h res thrown now s)"
| "run_stretch cfg (Teardown_settled d res) s = snd (disconnect_after_teardown d res s)"
| "run_stretch cfg (Call_sendRequest p t now) s = snd (sendRequest_enter cfg p t now s)"
| "run_stretch cfg (Connect_settled_for_send ach adh p t res now) s =
     snd (sendRequest_after_connect ach adh p t res now s)"
| "run_stretch cfg (Response_settled i ach adh res) s = snd (sendRequest_settle cfg i ach adh res s)"
| "run_stretch cfg (Transport_message m) s = onMessage cfg m s"
| "run_stretch cfg (Transport_disconnected now) s = snd (onConnectionTerminated_enter cfg now s)"

definition run :: "config \<Rightarrow> stretch list \<Rightarrow> controller \<Rightarrow> controller" where
  "run cfg xs s = fold (run_stretch cfg) xs s"

text \<open>
  The action a suspended call holds in a local variable, and settles when it resumes. Only
  the call that created an action holds it so.
\<close>

fun local_action :: "stretch \<Rightarrow> nat option" where
  "local_action (Transport_connect_settled a res) = Some a"
| "local_action (AfterConnectFn_settled a h res) = Some a"
| "local_action (BeforeDisconnectFn_settled d h res thrown now) = Some d"
| "local_action (Teardown_settled d res) = Some d"
| "local_action x = None"

text \<open>
  A whole call of \<^verbatim>\<open>disconnect\<close>, with the stretches \<open>xs1\<close> of other calls running while it
  awaits the before-disconnect function and \<open>xs2\<close> while it awaits the teardown.
\<close>

definition disconnect_call ::
  "config \<Rightarrow> js_error option \<Rightarrow> unix_time \<Rightarrow> stretch list \<Rightarrow> js_error + unit \<Rightarrow>
   js_error option \<Rightarrow> unix_time \<Rightarrow> stretch list \<Rightarrow> js_error + unit \<Rightarrow> controller \<Rightarrow>
   disconnect_state \<times> controller" where
  "disconnect_call cfg fatalError now xs1 beforeRes thrown now' xs2 afterRes s =
     (let (c1, s1) = disconnect_enter cfg fatalError now s
      in case c1 of
           Disconnect_await_before_hook d h \<Rightarrow>
             (let (c2, s2) = disconnect_after_before_hook cfg d h beforeRes thrown now'
                               (run cfg xs1 s1)
              in case c2 of
                   Disconnect_await_teardown d' called \<Rightarrow>
                     disconnect_after_teardown d' (onConnectionTerminated_outcome called afterRes)
                       (run cfg xs2 s2)
                 | _ \<Rightarrow> (c2, s2))
         | _ \<Rightarrow> (c1, s1))"

section \<open>Scenarios\<close>

text \<open>
  Concrete runs of the controller, each state obtained from a new controller by the
  stretches above.
\<close>

definition example_config :: config where
  "example_config = default_config ''core.example:1818''"

definition example_hooks :: hooks where
  "example_hooks =
     \<lparr>afterConnectFn = True, beforeDisconnectFn = True, afterDisconnectHook = True\<rparr>"

definition example_payload :: request_payload where
  "example_payload =
     \<lparr>command = ''ping'', args = ''[]'', commandId = None, payloadStartTime = None\<rparr>"

definition explicit_connect :: connect_options where
  "explicit_connect = \<lparr>timeoutMs = None, isAutoConnect = None, shouldAutoReconnect = None\<rparr>"

definition reconnecting_connect :: connect_options where
  "reconnecting_connect =
     \<lparr>timeoutMs = Some 5000, isAutoConnect = None, shouldAutoReconnect = Some True\<rparr>"

definition launch_error :: js_error where
  "launch_error = ErrorObj ''BrowserLaunchError'' ''failed to launch'' (Some True) False"

definition hook_failure :: js_error where
  "hook_failure = ErrorObj ''Error'' ''hook failed'' None False"

definition connect_refused :: js_error where
  "connect_refused = ErrorObj ''Error'' ''ECONNREFUSED'' None False"

definition canceled_error :: js_error where
  "canceled_error = ErrorObj ''CanceledPromiseError'' ''canceled'' None True"

text \<open>\<^verbatim>\<open>connect()\<close> was called on a new controller and awaits the transport.\<close>

definition st_connecting :: controller where
  "st_connecting =
     snd (connect_enter example_config explicit_connect 100 (new_controller example_hooks))"

text \<open>The transport has connected; the after-connect hook is running.\<close>

definition st_in_hook :: controller where
  "st_in_hook = snd (connect_after_transport 0 (Inr ()) st_connecting)"


text \<open>The after-connect hook has returned: connected.\<close>

definition st_connected :: controller where
  "st_connected = snd (connect_after_hook 0 (Hook_running 0 True) (Inr ()) st_in_hook)"

text \<open>Connected, with one request awaiting its response.\<close>

definition st_request :: controller where
  "st_request = snd (sendRequest_enter example_config example_payload None 150 st_connected)"

text \<open>
  \<^verbatim>\<open>disconnect()\<close> was called while \<^verbatim>\<open>connect()\<close> still awaits the transport; the
  before-disconnect hook is running.
\<close>

definition st_connecting_disconnecting :: controller where
  "st_connecting_disconnecting = snd (disconnect_enter example_config None 110 st_connecting)"

text \<open>... and then the transport's connect failed.\<close>

definition st_connect_failed :: controller where
  "st_connect_failed =
     snd (connect_after_transport 0 (Inl connect_refused) st_connecting_disconnecting)"




text \<open>Connected, then the transport reported the loss of the connection.\<close>

definition st_lost :: controller where
  "st_lost = snd (onConnectionTerminated_enter example_config 1000 st_connected)"

definition unclassified_message :: message where
  "unclassified_message =
     \<lparr>responseId = None, listenerId = None, eventType = None, data = Value ''{}''\<rparr>"

definition launch_response :: message where
  "launch_response =
     \<lparr>responseId = Some ''1'', listenerId = None, eventType = None, data = Err launch_error\<rparr>"

definition ok_response :: message where
  "ok_response =
     \<lparr>responseId = Some ''1'', listenerId = None, eventType = None, data = Value ''pong''\<rparr>"

text \<open>
  Connected with one request awaiting its response, then \<^verbatim>\<open>disconnect()\<close> was called: the
  request has been cancelled and the before-disconnect hook is running.
\<close>

definition st_disconnecting :: controller where
  "st_disconnecting = snd (disconnect_enter example_config None 200 st_request)"


section \<open>Evaluating the scenarios\<close>

lemmas model_defs =
  connect_enter_def connect_after_transport_def connect_after_hook_def connect_catch_def
  afterConnectHook_enter_def afterConnectHook_leave_def
  beforeDisconnectHook_enter_def beforeDisconnectHook_leave_def
  disconnect_enter_def disconnect_after_before_hook_def disconnect_after_teardown_def
  disconnect_finally_def disconnect_run_def
  onConnectionTerminated_enter_def onConnectionTerminated_outcome_def
  settle_connect_hook_request_def settle_disconnect_hook_request_def
  sendRequest_enter_def sendRequest_send_def sendRequest_settle_def sendRequest_after_connect_def
  set_hookMessageId_def shouldAutoConnect_def onResponse_def onMessage_def onEvent_def
  new_action_def upd_action_def get_action_def do_effect_def calling_hook_def hook_request_def
  connectAction_isAutomatic_def outcome_of_action_def observed_def hook_result_def
  pm_create_def pm_delete_def pm_settle_def pm_resolve_def pm_reject_def pm_cancel_def
  outcome_of_request_def is_pending_def
  resolvable_resolve_def resolvable_reject_def isResolved_def
  isBrowserLaunchError_def SessionClosedOrMissingError_name_def Let_def

lemmas example_defs =
  example_config_def example_hooks_def example_payload_def explicit_connect_def
  reconnecting_connect_def launch_error_def hook_failure_def connect_refused_def
  canceled_error_def new_controller_def default_config_def
  unclassified_message_def launch_response_def ok_response_def

lemma id_of_counter_1: "id_of_counter (Suc 0) = ''1''"
  by (simp add: id_of_counter_def digits_onto.simps digit_of_def)

lemma st_connecting_eq:
  "st_connecting =
     \<lparr>connectAction = Some 0, disconnectAction = None, autoReconnect = True,
      hooks = example_hooks,
      pendingMessages = \<lparr>lastId = 0, pending = [], settled = []\<rparr>,
      didCallConnectionTerminated = False, lastDisconnectDate = None,
      heap = [\<lparr>isCallingHook = False, hookMessageId = None, startTime = 100,
               isAutomatic = None, resolvable = Pending, error = None\<rparr>],
      effects = [Transport_connect None]\<rparr>"
  by (simp add: st_connecting_def example_defs model_defs)

lemma st_in_hook_eq:
  "st_in_hook =
     \<lparr>connectAction = Some 0, disconnectAction = None, autoReconnect = True,
      hooks = example_hooks,
      pendingMessages = \<lparr>lastId = 0, pending = [], settled = []\<rparr>,
      didCallConnectionTerminated = False, lastDisconnectDate = None,
      heap = [\<lparr>isCallingHook = True, hookMessageId = None, startTime = 100,
               isAutomatic = None, resolvable = Pending, error = None\<rparr>],
      effects = [Transport_connect None, Call_afterConnectFn 0]\<rparr>"
  by (simp add: st_in_hook_def st_connecting_eq example_defs model_defs)


lemma st_connected_eq:
  "st_connected =
     \<lparr>connectAction = Some 0, disconnectAction = None, autoReconnect = True,
      hooks = example_hooks,
      pendingMessages = \<lparr>lastId = 0, pending = [], settled = []\<rparr>,
      didCallConnectionTerminated = False, lastDisconnectDate = None,
      heap = [\<lparr>isCallingHook = False, hookMessageId = None, startTime = 100,
               isAutomatic = None, resolvable = Resolved, error = None\<rparr>],
      effects = [Transport_connect None, Call_afterConnectFn 0, Emit_connected]\<rparr>"
  by (simp add: st_connected_def st_in_hook_eq example_defs model_defs)

lemma st_request_eq:
  "st_request =
     \<lparr>connectAction = Some 0, disconnectAction = None, autoReconnect = True,
      hooks = example_hooks,
      pendingMessages =
        \<lparr>lastId = 1,
         pending = [(''1'', \<lparr>createdAt = 150, entryTimeoutMs = None,
                             bypassesConnectionCheck = False\<rparr>)],
         settled = []\<rparr>,
      didCallConnectionTerminated = False, lastDisconnectDate = None,
      heap = [\<lparr>isCallingHook = False, hookMessageId = None, startTime = 100,
               isAutomatic = None, resolvable = Resolved, error = None\<rparr>],
      effects = [Transport_connect None, Call_afterConnectFn 0, Emit_connected,
                 Transport_send \<lparr>payload = example_payload, messageId = ''1'',
                                 sendTime = 150\<rparr>]\<rparr>"
  by (simp add: st_request_def st_connected_eq example_defs model_defs id_of_counter_1)

lemma st_connecting_disconnecting_eq:
  "st_connecting_disconnecting =
     \<lparr>connectAction = Some 0, disconnectAction = Some 1, autoReconnect = False,
      hooks = example_hooks,
      pendingMessages = \<lparr>lastId = 0, pending = [], settled = []\<rparr>,
      didCallConnectionTerminated = False, lastDisconnectDate = None,
      heap = [\<lparr>isCallingHook = False, hookMessageId = None, startTime = 100,
               isAutomatic = None, resolvable = Pending, error = None\<rparr>,
              \<lparr>isCallingHook = True, hookMessageId = None, startTime = 110,
               isAutomatic = Some False, resolvable = Pending, error = None\<rparr>],
      effects = [Transport_connect None, Log_stats ''ConnectionToCore.Disconnecting'',
                 Call_beforeDisconnectFn 1]\<rparr>"
  by (simp add: st_connecting_disconnecting_def st_connecting_eq example_defs model_defs)

lemma st_connect_failed_eq:
  "st_connect_failed =
     \<lparr>connectAction = None, disconnectAction = Some 1, autoReconnect = False,
      hooks = example_hooks,
      pendingMessages = \<lparr>lastId = 0, pending = [], settled = []\<rparr>,
      didCallConnectionTerminated = False, lastDisconnectDate = None,
      heap = [\<lparr>isCallingHook = False, hookMessageId = None, startTime = 100,
               isAutomatic = None, resolvable = Rejected connect_refused, error = None\<rparr>,
              \<lparr>isCallingHook = True, hookMessageId = None, startTime = 110,
               isAutomatic = Some False, resolvable = Pending, error = None\<rparr>],
      effects = [Transport_connect None, Log_stats ''ConnectionToCore.Disconnecting'',
                 Call_beforeDisconnectFn 1]\<rparr>"
  by (simp add: st_connect_failed_def st_connecting_disconnecting_eq model_defs)




lemma st_lost_eq:
  "st_lost =
     \<lparr>connectAction = None, disconnectAction = None, autoReconnect = True,
      hooks = example_hooks,
      pendingMessages = \<lparr>lastId = 0, pending = [], settled = []\<rparr>,
      didCallConnectionTerminated = True, lastDisconnectDate = Some 1000,
      heap = [\<lparr>isCallingHook = False, hookMessageId = None, startTime = 100,
               isAutomatic = None, resolvable = Resolved, error = None\<rparr>],
      effects = [Transport_connect None, Call_afterConnectFn 0, Emit_connected,
                 Emit_disconnected, Call_afterDisconnectHook]\<rparr>"
  by (simp add: st_lost_def st_connected_eq example_defs model_defs)

lemma st_disconnecting_eq:
  "st_disconnecting =
     \<lparr>connectAction = Some 0, disconnectAction = Some 1, autoReconnect = False,
      hooks = example_hooks,
      pendingMessages =
        \<lparr>lastId = 1, pending = [],
         settled = [(''1'', Rejected_with (DisconnectedError ''core.example:1818''))]\<rparr>,
      didCallConnectionTerminated = False, lastDisconnectDate = None,
      heap = [\<lparr>isCallingHook = False, hookMessageId = None, startTime = 100,
               isAutomatic = None, resolvable = Resolved, error = None\<rparr>,
              \<lparr>isCallingHook = True, hookMessageId = None, startTime = 200,
               isAutomatic = Some False, resolvable = Pending, error = None\<rparr>],
      effects = [Transport_connect None, Call_afterConnectFn 0, Emit_connected,
                 Transport_send \<lparr>payload = example_payload, messageId = ''1'',
                                 sendTime = 150\<rparr>,
                 Log_stats ''ConnectionToCore.Disconnecting'',
                 Call_beforeDisconnectFn 1]\<rparr>"
  by (simp add: st_disconnecting_def st_request_eq example_defs model_defs)

section \<open>Helper lemmas\<close>

lemma isBrowserLaunchError_delete:
  "isBrowserLaunchError (delete_isDisconnecting e) = isBrowserLaunchError e"
  by (cases e) (simp_all add: isBrowserLaunchError_def)

lemma map_of_filter_neq: "map_of (filter (\<lambda>p. fst p \<noteq> i) xs) i = None"
  by (induction xs) auto

lemma pendingMessages_upd_action:
  "pendingMessages (upd_action a f s) = pendingMessages s"
  by (simp add: upd_action_def)

lemma pendingMessages_set_hookMessageId:
  "pendingMessages (set_hookMessageId r v s) = pendingMessages s"
  by (simp add: set_hookMessageId_def pendingMessages_upd_action split: option.splits)

lemma not_pending_pm_delete: "\<not> is_pending (pm_delete i r) i"
  by (simp add: is_pending_def pm_delete_def map_of_filter_neq)

lemma pm_settle_pending:
  "is_pending r i \<Longrightarrow>
   settled (pm_settle i x r) = settled r @ [(i, x)] \<and> \<not> is_pending (pm_settle i x r) i"
  by (auto simp: is_pending_def pm_settle_def pm_delete_def map_of_filter_neq)




lemma upd_action_fields:
  "connectAction (upd_action a f s) = connectAction s"
  "disconnectAction (upd_action a f s) = disconnectAction s"
  "autoReconnect (upd_action a f s) = autoReconnect s"
  "hooks (upd_action a f s) = hooks s"
  "didCallConnectionTerminated (upd_action a f s) = didCallConnectionTerminated s"
  "lastDisconnectDate (upd_action a f s) = lastDisconnectDate s"
  "effects (upd_action a f s) = effects s"
  by (simp_all add: upd_action_def)

lemma do_effect_fields:
  "connectAction (do_effect x s) = connectAction s"
  "disconnectAction (do_effect x s) = disconnectAction s"
  "autoReconnect (do_effect x s) = autoReconnect s"
  "hooks (do_effect x s) = hooks s"
  "didCallConnectionTerminated (do_effect x s) = didCallConnectionTerminated s"
  "lastDisconnectDate (do_effect x s) = lastDisconnectDate s"
  "heap (do_effect x s) = heap s"
  "effects (do_effect x s) = effects s @ [x]"
  by (simp_all add: do_effect_def)

lemma length_heap_upd_action: "length (heap (upd_action a f s)) = length (heap s)"
  by (simp add: upd_action_def)

lemma resolvable_upd_action:
  "(\<And>x. resolvable (f x) = resolvable x) \<Longrightarrow> d < length (heap s) \<Longrightarrow>
   resolvable (heap (upd_action a f s) ! d) = resolvable (heap s ! d)"
  by (cases "a = d") (simp_all add: upd_action_def)


subsection \<open>What onResponse leaves alone\<close>




lemma effects_onResponse: "effects (onResponse cfg i d s) = effects s"
  by (cases d) (simp_all add: onResponse_def Let_def)

lemma hooks_onResponse: "hooks (onResponse cfg i d s) = hooks s"
  by (cases d) (simp_all add: onResponse_def Let_def)

lemma heap_onResponse: "heap (onResponse cfg i d s) = heap s"
  by (cases d) (simp_all add: onResponse_def Let_def)

subsection \<open>The steps of the teardown\<close>




lemma heap_settle_connect_hook_request: "heap (settle_connect_hook_request cfg s) = heap s"
  by (simp add: settle_connect_hook_request_def heap_onResponse split: option.splits)

lemma heap_settle_disconnect_hook_request: "heap (settle_disconnect_hook_request cfg s) = heap s"
  by (simp add: settle_disconnect_hook_request_def heap_onResponse split: option.splits)

lemma hooks_settle_connect_hook_request: "hooks (settle_connect_hook_request cfg s) = hooks s"
  by (simp add: settle_connect_hook_request_def hooks_onResponse split: option.splits)

lemma hooks_settle_disconnect_hook_request: "hooks (settle_disconnect_hook_request cfg s) = hooks s"
  by (simp add: settle_disconnect_hook_request_def hooks_onResponse split: option.splits)

lemma effects_settle_connect_hook_request: "effects (settle_connect_hook_request cfg s) = effects s"
  by (simp add: settle_connect_hook_request_def effects_onResponse split: option.splits)

lemma effects_settle_disconnect_hook_request:
  "effects (settle_disconnect_hook_request cfg s) = effects s"
  by (simp add: settle_disconnect_hook_request_def effects_onResponse split: option.splits)

lemma teardown_frame:
  assumes "onConnectionTerminated_enter cfg now s = (called, s')"
  shows "heap s' = heap s"
    and "called = (\<not> didCallConnectionTerminated s \<and> afterDisconnectHook (hooks s))"
    and "set (effects s) \<subseteq> set (effects s')"
  using assms
  by (auto simp: onConnectionTerminated_enter_def Let_def do_effect_def
      heap_settle_connect_hook_request heap_settle_disconnect_hook_request
      hooks_settle_connect_hook_request hooks_settle_disconnect_hook_request
      effects_settle_connect_hook_request effects_settle_disconnect_hook_request
      split: if_splits)

lemma teardown_connected:
  "onConnectionTerminated_enter example_config 1000 st_connected = (True, st_lost)"
  by (simp add: st_lost_eq) (simp add: st_connected_eq example_defs model_defs)

lemma teardown_again:
  "onConnectionTerminated_enter example_config 1001 st_lost = (False, st_lost)"
  by (simp add: st_lost_eq onConnectionTerminated_enter_def)

subsection \<open>The steps of disconnect\<close>

lemma disconnect_finally_resolves:
  "d < length (heap s) \<Longrightarrow> resolvable (heap s ! d) = Pending \<Longrightarrow>
   outcome_of_action (disconnect_finally d s) d = Some Resolved"
  by (simp add: disconnect_finally_def outcome_of_action_def get_action_def upd_action_def
      resolvable_resolve_def)

lemma effects_disconnect_finally: "effects (disconnect_finally d s) = effects s"
  by (simp add: disconnect_finally_def upd_action_def)

lemma disconnect_enter_new:
  assumes "disconnectAction s = None" and "disconnect_enter cfg fatalError now s = (c, s1)"
  shows "c = Disconnect_await_before_hook (length (heap s))
               (Hook_running (length (heap s)) (beforeDisconnectFn (hooks s)))"
    and "length (heap s) < length (heap s1)"
    and "resolvable (heap s1 ! length (heap s)) = Pending"
    and "hooks s1 = hooks s"
    and "didCallConnectionTerminated s1 = didCallConnectionTerminated s"
  using assms
  by (auto simp: disconnect_enter_def new_action_def beforeDisconnectHook_enter_def upd_action_def
      do_effect_def Let_def split: if_splits)

lemma beforeDisconnectHook_leave_frame:
  "hooks (beforeDisconnectHook_leave h res s) = hooks s"
  "didCallConnectionTerminated (beforeDisconnectHook_leave h res s) = didCallConnectionTerminated s"
  "length (heap (beforeDisconnectHook_leave h res s)) = length (heap s)"
  "d < length (heap s) \<Longrightarrow>
   resolvable (heap (beforeDisconnectHook_leave h res s) ! d) = resolvable (heap s ! d)"
  by (auto simp: beforeDisconnectHook_leave_def Let_def resolvable_upd_action
      length_heap_upd_action upd_action_fields do_effect_fields
      split: hook_wait.splits sum.splits)

lemma beforeDisconnectHook_leave_logs:
  "Log_error ''Error in beforeDisconnect hook'' err
     \<in> set (effects (beforeDisconnectHook_leave (Hook_running d True) (Inl err) s))"
  by (simp add: beforeDisconnectHook_leave_def hook_result_def upd_action_def do_effect_def)

lemma disconnect_after_before_hook_step:
  assumes "d < length (heap s)" and "resolvable (heap s ! d) = Pending"
    and "disconnect_after_before_hook cfg d h res thrown now s = (c, s')"
  shows "case (if transportHasDisconnect cfg then thrown else None) of
           Some err \<Rightarrow> c = Disconnect_threw err \<and> outcome_of_action s' d = Some Resolved
         | None \<Rightarrow>
             c = Disconnect_await_teardown d
                   (\<not> didCallConnectionTerminated s \<and> afterDisconnectHook (hooks s)) \<and>
             d < length (heap s') \<and> resolvable (heap s' ! d) = Pending"
    and "set (effects (beforeDisconnectHook_leave h res s)) \<subseteq> set (effects s')"
proof -
  define s1 where "s1 = beforeDisconnectHook_leave h res s"
  have s1: "d < length (heap s1)" "resolvable (heap s1 ! d) = Pending"
    "hooks s1 = hooks s" "didCallConnectionTerminated s1 = didCallConnectionTerminated s"
    using assms(1,2) by (simp_all add: s1_def beforeDisconnectHook_leave_frame)
  show "case (if transportHasDisconnect cfg then thrown else None) of
           Some err \<Rightarrow> c = Disconnect_threw err \<and> outcome_of_action s' d = Some Resolved
         | None \<Rightarrow>
             c = Disconnect_await_teardown d
                   (\<not> didCallConnectionTerminated s \<and> afterDisconnectHook (hooks s)) \<and>
             d < length (heap s') \<and> resolvable (heap s' ! d) = Pending"
  proof (cases "transportHasDisconnect cfg")
    case True
    define s2 where "s2 = do_effect Transport_disconnect s1"
    have s2: "d < length (heap s2)" "resolvable (heap s2 ! d) = Pending"
      "hooks s2 = hooks s" "didCallConnectionTerminated s2 = didCallConnectionTerminated s"
      using s1 by (simp_all add: s2_def do_effect_def)
    show ?thesis
    proof (cases thrown)
      case (Some err)
      with True assms(3) s2 show ?thesis
        by (auto simp: disconnect_after_before_hook_def s1_def [symmetric] s2_def [symmetric]
            Let_def disconnect_finally_resolves)
    next
      case None
      obtain called s3 where t: "onConnectionTerminated_enter cfg now s2 = (called, s3)"
        by (cases "onConnectionTerminated_enter cfg now s2")
      from None True assms(3) t have "c = Disconnect_await_teardown d called" "s' = s3"
        by (simp_all add: disconnect_after_before_hook_def s1_def [symmetric] s2_def [symmetric]
            Let_def)
      with teardown_frame(1,2) [OF t] s2 None True show ?thesis by simp
    qed
  next
    case False
    obtain called s3 where t: "onConnectionTerminated_enter cfg now s1 = (called, s3)"
      by (cases "onConnectionTerminated_enter cfg now s1")
    from False assms(3) t have "c = Disconnect_await_teardown d called" "s' = s3"
      by (simp_all add: disconnect_after_before_hook_def s1_def [symmetric] Let_def)
    with teardown_frame(1,2) [OF t] s1 False show ?thesis by simp
  qed
  show "set (effects (beforeDisconnectHook_leave h res s)) \<subseteq> set (effects s')"
  proof -
    obtain called s3 where t: "onConnectionTerminated_enter cfg now s1 = (called, s3)"
      by (cases "onConnectionTerminated_enter cfg now s1")
    obtain called' s3' where t':
      "onConnectionTerminated_enter cfg now (do_effect Transport_disconnect s1) = (called', s3')"
      by (cases "onConnectionTerminated_enter cfg now (do_effect Transport_disconnect s1)")
    from teardown_frame(3) [OF t] teardown_frame(3) [OF t'] assms(3) t t' show ?thesis
      by (auto simp: disconnect_after_before_hook_def s1_def [symmetric] Let_def
          effects_disconnect_finally do_effect_def split: if_splits option.splits)
  qed
qed

lemma disconnect_after_teardown_step:
  assumes "d < length (heap s)" and "resolvable (heap s ! d) = Pending"
    and "disconnect_after_teardown d res s = (r, s')"
  shows "outcome_of_action s' d = Some Resolved"
    and "r = (case res of Inl err \<Rightarrow> Disconnect_threw err
              | Inr u \<Rightarrow> Disconnect_returned (Ret_promise d))"
    and "set (effects s) \<subseteq> set (effects s')"
  using assms
  by (auto simp: disconnect_after_teardown_def Let_def do_effect_def disconnect_finally_resolves
      effects_disconnect_finally split: sum.splits)

lemma disconnect_run_after_hook_fails:
  "disconnect_run example_config None 200 (Inr ()) None 210 (Inl hook_failure) st_connected =
     (Disconnect_threw hook_failure,
      \<lparr>connectAction = None, disconnectAction = Some 1, autoReconnect = False,
       hooks = example_hooks,
       pendingMessages = \<lparr>lastId = 0, pending = [], settled = []\<rparr>,
       didCallConnectionTerminated = True, lastDisconnectDate = Some 210,
       heap = [\<lparr>isCallingHook = False, hookMessageId = None, startTime = 100,
                isAutomatic = None, resolvable = Resolved, error = None\<rparr>,
               \<lparr>isCallingHook = False, hookMessageId = None, startTime = 200,
                isAutomatic = Some False, resolvable = Resolved, error = None\<rparr>],
       effects = [Transport_connect None, Call_afterConnectFn 0, Emit_connected,
                  Log_stats ''ConnectionToCore.Disconnecting'', Call_beforeDisconnectFn 1,
                  Transport_disconnect, Emit_disconnected, Call_afterDisconnectHook]\<rparr>)"
  by (simp add: st_connected_eq example_defs model_defs)

lemma disconnect_run_before_hook_fails:
  "disconnect_run example_config None 200 (Inl hook_failure) None 210 (Inr ()) st_request =
     (Disconnect_returned (Ret_promise 1),
      \<lparr>connectAction = None, disconnectAction = Some 1, autoReconnect = False,
       hooks = example_hooks,
       pendingMessages =
         \<lparr>lastId = 1, pending = [],
          settled = [(''1'', Rejected_with (DisconnectedError ''core.example:1818''))]\<rparr>,
       didCallConnectionTerminated = True, lastDisconnectDate = Some 210,
       heap = [\<lparr>isCallingHook = False, hookMessageId = None, startTime = 100,
                isAutomatic = None, resolvable = Resolved, error = None\<rparr>,
               \<lparr>isCallingHook = False, hookMessageId = None, startTime = 200,
                isAutomatic = Some False, resolvable = Resolved, error = None\<rparr>],
       effects = [Transport_connect None, Call_afterConnectFn 0, Emit_connected,
                  Transport_send \<lparr>payload = example_payload, messageId = ''1'',
                                  sendTime = 150\<rparr>,
                  Log_stats ''ConnectionToCore.Disconnecting'', Call_beforeDisconnectFn 1,
                  Log_error ''Error in beforeDisconnect hook'' hook_failure,
                  Transport_disconnect, Emit_disconnected, Call_afterDisconnectHook,
                  Log_stats ''ConnectionToCore.Disconnected'']\<rparr>)"
  by (simp add: st_request_eq example_defs model_defs)

subsection \<open>The steps of connect\<close>

lemma connect_catch_rejects:
  assumes "outcome_of_action s a = Some Pending"
  shows "fst (connect_catch a err s) = Connect_returned (Ret_promise a)"
    and "connectAction (snd (connect_catch a err s)) = None"
    and "outcome_of_action (snd (connect_catch a err s)) a = Some (Rejected err)"
    and "disconnectAction (snd (connect_catch a err s)) = disconnectAction s"
    and "length (heap (snd (connect_catch a err s))) = length (heap s)"
  using assms
  by (auto simp: connect_catch_def outcome_of_action_def get_action_def upd_action_def
      resolvable_reject_def Let_def split: if_splits)

lemma afterConnectHook_leave_pending:
  "outcome_of_action s a = Some Pending \<Longrightarrow>
   outcome_of_action (afterConnectHook_leave h s) a = Some Pending"
  by (auto simp: afterConnectHook_leave_def outcome_of_action_def get_action_def
      length_heap_upd_action resolvable_upd_action split: hook_wait.splits if_splits)

lemma connect_enter_fresh:
  assumes "connectAction s = None"
  shows "fst (connect_enter cfg options now s) =
           (if calling_hook s (disconnectAction s) then Connect_returned Ret_void
            else Connect_await_transport (length (heap s)))"
    and "\<not> calling_hook s (disconnectAction s) \<Longrightarrow> transportHasConnect cfg \<Longrightarrow>
         effects (snd (connect_enter cfg options now s)) =
           effects s @ [Transport_connect (timeoutMs options)]"
    and "\<not> calling_hook s (disconnectAction s) \<Longrightarrow>
         connectAction (snd (connect_enter cfg options now s)) = Some (length (heap s)) \<and>
         outcome_of_action (snd (connect_enter cfg options now s)) (length (heap s)) = Some Pending"
  using assms
  by (auto simp: connect_enter_def new_action_def do_effect_def Let_def outcome_of_action_def
      get_action_def split: option.splits)

lemma st_connecting_failed:
  "connect_after_transport 0 (Inl connect_refused) st_connecting =
     (Connect_returned (Ret_promise 0),
      \<lparr>connectAction = None, disconnectAction = None, autoReconnect = True,
       hooks = example_hooks,
       pendingMessages = \<lparr>lastId = 0, pending = [], settled = []\<rparr>,
       didCallConnectionTerminated = False, lastDisconnectDate = None,
       heap = [\<lparr>isCallingHook = False, hookMessageId = None, startTime = 100,
                isAutomatic = None, resolvable = Rejected connect_refused, error = None\<rparr>],
       effects = [Transport_connect None]\<rparr>)"
  by (simp add: st_connecting_eq model_defs)

subsection \<open>No auto-reconnect while a disconnect action exists\<close>

lemma onResponse_fields:
  "connectAction (onResponse cfg i d s) = connectAction s"
  "disconnectAction (onResponse cfg i d s) = disconnectAction s"
  "autoReconnect (onResponse cfg i d s) = autoReconnect s"
  by (cases d; simp add: onResponse_def Let_def)+

lemma set_hookMessageId_fields:
  "disconnectAction (set_hookMessageId r v s) = disconnectAction s"
  "autoReconnect (set_hookMessageId r v s) = autoReconnect s"
  by (simp_all add: set_hookMessageId_def upd_action_fields split: option.splits)

lemma connect_catch_fields:
  "disconnectAction (snd (connect_catch a err s)) = disconnectAction s"
  "autoReconnect (snd (connect_catch a err s)) = autoReconnect s"
  by (simp_all add: connect_catch_def Let_def upd_action_fields)

lemma afterConnectHook_enter_fields:
  "disconnectAction (snd (afterConnectHook_enter s)) = disconnectAction s"
  "autoReconnect (snd (afterConnectHook_enter s)) = autoReconnect s"
  by (simp_all add: afterConnectHook_enter_def Let_def upd_action_fields do_effect_fields
      split: option.splits)

lemma afterConnectHook_leave_fields:
  "disconnectAction (afterConnectHook_leave h s) = disconnectAction s"
  "autoReconnect (afterConnectHook_leave h s) = autoReconnect s"
  by (simp_all add: afterConnectHook_leave_def upd_action_fields split: hook_wait.splits)

lemma beforeDisconnectHook_enter_fields:
  "disconnectAction (snd (beforeDisconnectHook_enter s)) = disconnectAction s"
  "autoReconnect (snd (beforeDisconnectHook_enter s)) = autoReconnect s"
  by (simp_all add: beforeDisconnectHook_enter_def Let_def upd_action_fields do_effect_fields
      split: option.splits)

lemma beforeDisconnectHook_leave_fields:
  "disconnectAction (beforeDisconnectHook_leave h res s) = disconnectAction s"
  "autoReconnect (beforeDisconnectHook_leave h res s) = autoReconnect s"
  by (simp_all add: beforeDisconnectHook_leave_def Let_def upd_action_fields do_effect_fields
      split: hook_wait.splits sum.splits)

lemma disconnect_finally_fields:
  "disconnectAction (disconnect_finally d s) = disconnectAction s"
  "autoReconnect (disconnect_finally d s) = autoReconnect s"
  by (simp_all add: disconnect_finally_def upd_action_fields)

lemma teardown_fields:
  "disconnectAction (snd (onConnectionTerminated_enter cfg now s)) = disconnectAction s"
  "autoReconnect (snd (onConnectionTerminated_enter cfg now s)) = autoReconnect s"
  by (simp_all add: onConnectionTerminated_enter_def Let_def do_effect_fields onResponse_fields
      settle_connect_hook_request_def settle_disconnect_hook_request_def split: option.splits)

lemma connect_enter_keeps:
  "disconnectAction s \<noteq> None \<longrightarrow> \<not> autoReconnect s \<Longrightarrow>
   disconnectAction (snd (connect_enter cfg options now s)) \<noteq> None \<longrightarrow>
     \<not> autoReconnect (snd (connect_enter cfg options now s))"
  by (simp add: connect_enter_def new_action_def Let_def do_effect_fields
      split: option.splits)

lemma disconnect_enter_disables:
  "\<not> autoReconnect (snd (disconnect_enter cfg fatalError now s))"
  by (simp add: disconnect_enter_def new_action_def Let_def do_effect_fields split_beta
      beforeDisconnectHook_enter_fields split: option.splits)

lemma sendRequest_send_fields:
  "disconnectAction (snd (sendRequest_send ach adh p t now s)) = disconnectAction s"
  "autoReconnect (snd (sendRequest_send ach adh p t now s)) = autoReconnect s"
  by (simp_all add: sendRequest_send_def Let_def split_beta do_effect_fields
      set_hookMessageId_fields)

lemma run_stretch_keeps:
  assumes "disconnectAction s \<noteq> None \<longrightarrow> \<not> autoReconnect s"
  shows "disconnectAction (run_stretch cfg x s) \<noteq> None \<longrightarrow> \<not> autoReconnect (run_stretch cfg x s)"
proof (cases x)
  case (Call_connect options now)
  with assms show ?thesis by (simp add: connect_enter_keeps)
next
  case (Transport_connect_settled a res)
  with assms show ?thesis
    by (simp add: connect_after_transport_def connect_catch_fields Let_def split_beta
        afterConnectHook_enter_fields split: sum.splits)
next
  case (AfterConnectFn_settled a h res)
  with assms show ?thesis
    by (simp add: connect_after_hook_def connect_catch_fields Let_def afterConnectHook_leave_fields
        upd_action_fields do_effect_fields split: sum.splits)
next
  case (Call_disconnect fatalError now)
  then show ?thesis by (simp add: disconnect_enter_disables)
next
  case (BeforeDisconnectFn_settled d h res thrown now)
  with assms show ?thesis
    by (simp add: disconnect_after_before_hook_def Let_def split_beta teardown_fields
        disconnect_finally_fields do_effect_fields beforeDisconnectHook_leave_fields
        split: option.splits)
next
  case (Teardown_settled d res)
  with assms show ?thesis
    by (simp add: disconnect_after_teardown_def Let_def disconnect_finally_fields do_effect_fields
        split: sum.splits)
next
  case (Call_sendRequest p t now)
  with assms connect_enter_keeps [OF assms] show ?thesis
    by (simp add: sendRequest_enter_def Let_def split_beta sendRequest_send_fields)
next
  case (Connect_settled_for_send ach adh p t res now)
  with assms show ?thesis
    by (simp add: sendRequest_after_connect_def sendRequest_send_fields split: sum.splits)
next
  case (Response_settled i ach adh res)
  with assms show ?thesis
    by (simp add: sendRequest_settle_def Let_def split_beta set_hookMessageId_fields
        split: sum.splits)
next
  case (Transport_message m)
  with assms show ?thesis
    by (simp add: onMessage_def onEvent_def onResponse_fields do_effect_fields
        split: option.splits)
next
  case (Transport_disconnected now)
  with assms show ?thesis by (simp add: teardown_fields)
qed

lemma run_keeps:
  "disconnectAction s \<noteq> None \<longrightarrow> \<not> autoReconnect s \<Longrightarrow>
   disconnectAction (run cfg xs s) \<noteq> None \<longrightarrow> \<not> autoReconnect (run cfg xs s)"
  unfolding run_def
  by (induction xs arbitrary: s) (simp_all add: run_stretch_keeps)

lemma run_new_controller:
  "disconnectAction (run cfg xs (new_controller hs)) \<noteq> None \<longrightarrow>
   \<not> autoReconnect (run cfg xs (new_controller hs))"
  by (rule run_keeps) (simp add: new_controller_def)

lemma calling_hook_present: "calling_hook s r \<Longrightarrow> r \<noteq> None"
  by (auto simp: calling_hook_def split: option.splits)

subsection \<open>An action is settled only by the call that owns it\<close>

lemma outcome_of_action_heap:
  "heap s' = heap s \<Longrightarrow> outcome_of_action s' d = outcome_of_action s d"
  by (simp add: outcome_of_action_def get_action_def)

lemma outcome_upd_action_other:
  "a \<noteq> d \<Longrightarrow> outcome_of_action (upd_action a f s) d = outcome_of_action s d"
  by (simp add: outcome_of_action_def get_action_def upd_action_def)

lemma outcome_upd_action_same:
  "(\<And>x. resolvable (f x) = resolvable x) \<Longrightarrow>
   outcome_of_action (upd_action a f s) d = outcome_of_action s d"
  by (cases "a = d") (auto simp: outcome_of_action_def get_action_def upd_action_def)

lemma outcome_do_effect: "outcome_of_action (do_effect x s) d = outcome_of_action s d"
  by (rule outcome_of_action_heap) (simp add: do_effect_fields)

lemma outcome_of_action_Some:
  "outcome_of_action s d = Some p \<longleftrightarrow> d < length (heap s) \<and> resolvable (heap s ! d) = p"
  by (simp add: outcome_of_action_def get_action_def)

lemma outcome_new_action:
  "outcome_of_action s d = Some p \<Longrightarrow> outcome_of_action (snd (new_action act s)) d = Some p"
  by (simp add: outcome_of_action_Some new_action_def nth_append)

lemma outcome_onResponse: "outcome_of_action (onResponse cfg i x s) d = outcome_of_action s d"
  by (rule outcome_of_action_heap) (simp add: heap_onResponse)

lemma outcome_set_hookMessageId:
  "outcome_of_action (set_hookMessageId r v s) d = outcome_of_action s d"
  by (simp add: set_hookMessageId_def outcome_upd_action_same split: option.splits)

lemma outcome_teardown:
  "outcome_of_action (snd (onConnectionTerminated_enter cfg now s)) d = outcome_of_action s d"
  by (rule outcome_of_action_heap)
    (simp add: teardown_frame(1) [OF prod.collapse [symmetric]])

lemma outcome_connect_catch:
  "a \<noteq> d \<Longrightarrow> outcome_of_action (snd (connect_catch a err s)) d = outcome_of_action s d"
  by (simp add: connect_catch_def Let_def outcome_upd_action_other)
    (simp add: outcome_of_action_def get_action_def)

lemma outcome_afterConnectHook_enter:
  "outcome_of_action (snd (afterConnectHook_enter s)) d = outcome_of_action s d"
  by (simp add: afterConnectHook_enter_def Let_def outcome_do_effect outcome_upd_action_same
      split: option.splits)

lemma outcome_afterConnectHook_leave:
  "outcome_of_action (afterConnectHook_leave h s) d = outcome_of_action s d"
  by (simp add: afterConnectHook_leave_def outcome_upd_action_same split: hook_wait.splits)

lemma outcome_beforeDisconnectHook_enter:
  "outcome_of_action (snd (beforeDisconnectHook_enter s)) d = outcome_of_action s d"
  by (simp add: beforeDisconnectHook_enter_def Let_def outcome_do_effect outcome_upd_action_same
      split: option.splits)

lemma outcome_beforeDisconnectHook_leave:
  "outcome_of_action (beforeDisconnectHook_leave h res s) d = outcome_of_action s d"
  by (simp add: beforeDisconnectHook_leave_def Let_def outcome_do_effect outcome_upd_action_same
      split: hook_wait.splits sum.splits)

lemma outcome_disconnect_finally:
  "d' \<noteq> d \<Longrightarrow> outcome_of_action (disconnect_finally d' s) d = outcome_of_action s d"
  by (simp add: disconnect_finally_def outcome_upd_action_other)

lemma outcome_field_updates:
  "outcome_of_action (s\<lparr>connectAction := a\<rparr>) d = outcome_of_action s d"
  "outcome_of_action (s\<lparr>disconnectAction := b\<rparr>) d = outcome_of_action s d"
  "outcome_of_action (s\<lparr>autoReconnect := c\<rparr>) d = outcome_of_action s d"
  "outcome_of_action (s\<lparr>pendingMessages := r\<rparr>) d = outcome_of_action s d"
  "outcome_of_action (s\<lparr>didCallConnectionTerminated := e\<rparr>) d = outcome_of_action s d"
  "outcome_of_action (s\<lparr>lastDisconnectDate := t\<rparr>) d = outcome_of_action s d"
  by (simp_all add: outcome_of_action_def get_action_def)

lemma outcome_connect_enter:
  assumes "outcome_of_action s d = Some p"
  shows "outcome_of_action (snd (connect_enter cfg options now s)) d = Some p"
proof -
  have "outcome_of_action
          (snd (new_action act (case shouldAutoReconnect options of
                                  None \<Rightarrow> s | Some b \<Rightarrow> s\<lparr>autoReconnect := b\<rparr>))) d = Some p"
    for act
    using assms by (intro outcome_new_action) (simp add: outcome_field_updates split: option.splits)
  with assms show ?thesis
    by (simp add: connect_enter_def Let_def split_beta outcome_do_effect outcome_field_updates
        split: option.splits)
qed

lemma outcome_disconnect_enter:
  assumes "outcome_of_action s d = Some p"
  shows "outcome_of_action (snd (disconnect_enter cfg fatalError now s)) d = Some p"
proof -
  have "outcome_of_action (snd (new_action act (s\<lparr>autoReconnect := False\<rparr>))) d = Some p" for act
    using assms by (intro outcome_new_action) (simp add: outcome_field_updates)
  with assms show ?thesis
    by (simp add: disconnect_enter_def Let_def split_beta outcome_do_effect outcome_field_updates
        outcome_beforeDisconnectHook_enter split: option.splits)
qed

lemma outcome_sendRequest_send:
  "outcome_of_action (snd (sendRequest_send ach adh p t now s)) d = outcome_of_action s d"
  by (simp add: sendRequest_send_def Let_def split_beta outcome_do_effect
      outcome_set_hookMessageId outcome_field_updates)

lemma run_stretch_keeps_action:
  assumes other: "local_action x \<noteq> Some d" and p: "outcome_of_action s d = Some p"
  shows "outcome_of_action (run_stretch cfg x s) d = Some p"
proof (cases x)
  case (Call_connect options now)
  with p show ?thesis by (simp add: outcome_connect_enter)
next
  case (Transport_connect_settled a res)
  with other p show ?thesis
    by (simp add: connect_after_transport_def Let_def split_beta outcome_connect_catch
        outcome_afterConnectHook_enter outcome_field_updates split: sum.splits)
next
  case (AfterConnectFn_settled a h res)
  with other p show ?thesis
    by (simp add: connect_after_hook_def Let_def outcome_connect_catch outcome_do_effect
        outcome_upd_action_other outcome_afterConnectHook_leave split: sum.splits)
next
  case (Call_disconnect fatalError now)
  with p show ?thesis by (simp add: outcome_disconnect_enter)
next
  case (BeforeDisconnectFn_settled d' h res thrown now)
  with other p show ?thesis
    by (simp add: disconnect_after_before_hook_def Let_def split_beta outcome_teardown
        outcome_disconnect_finally outcome_do_effect outcome_beforeDisconnectHook_leave
        split: option.splits)
next
  case (Teardown_settled d' res)
  with other p show ?thesis
    by (simp add: disconnect_after_teardown_def Let_def outcome_disconnect_finally
        outcome_do_effect outcome_field_updates split: sum.splits)
next
  case (Call_sendRequest pl t now)
  with p show ?thesis
    by (simp add: sendRequest_enter_def Let_def split_beta outcome_connect_enter
        outcome_sendRequest_send)
next
  case (Connect_settled_for_send ach adh pl t res now)
  with p show ?thesis
    by (simp add: sendRequest_after_connect_def outcome_sendRequest_send split: sum.splits)
next
  case (Response_settled i ach adh res)
  with p show ?thesis
    by (simp add: sendRequest_settle_def Let_def split_beta outcome_set_hookMessageId
        outcome_field_updates split: sum.splits)
next
  case (Transport_message m)
  with p show ?thesis
    by (simp add: onMessage_def onEvent_def outcome_onResponse outcome_do_effect
        split: option.splits)
next
  case (Transport_disconnected now)
  with p show ?thesis by (simp add: outcome_teardown)
qed

lemma run_keeps_action:
  "\<forall>x\<in>set xs. local_action x \<noteq> Some d \<Longrightarrow> outcome_of_action s d = Some p \<Longrightarrow>
   outcome_of_action (run cfg xs s) d = Some p"
  unfolding run_def
  by (induction xs arbitrary: s) (simp_all add: run_stretch_keeps_action)

subsection \<open>What each stretch of disconnect does to the outside\<close>

lemma effects_teardown:
  "effects (snd (onConnectionTerminated_enter cfg now s)) =
     effects s @
       (if didCallConnectionTerminated s then []
        else Emit_disconnected #
               (if afterDisconnectHook (hooks s) then [Call_afterDisconnectHook] else []))"
  by (simp add: onConnectionTerminated_enter_def Let_def do_effect_def
      effects_settle_connect_hook_request effects_settle_disconnect_hook_request
      hooks_settle_connect_hook_request hooks_settle_disconnect_hook_request)

lemma effects_beforeDisconnectHook_leave:
  "effects (beforeDisconnectHook_leave (Hook_running d fn) res s) =
     effects s @
       (if fn then case res of Inl err \<Rightarrow> [Log_error ''Error in beforeDisconnect hook'' err]
                   | Inr u \<Rightarrow> []
        else [])"
  by (simp add: beforeDisconnectHook_leave_def hook_result_def upd_action_fields do_effect_fields
      split: sum.splits)

lemma effects_disconnect_enter:
  "disconnectAction s = None \<Longrightarrow>
   effects (snd (disconnect_enter cfg fatalError now s)) =
     effects s @ Log_stats ''ConnectionToCore.Disconnecting'' #
       (if beforeDisconnectFn (hooks s) then [Call_beforeDisconnectFn (length (heap s))] else [])"
  by (simp add: disconnect_enter_def new_action_def beforeDisconnectHook_enter_def Let_def
      upd_action_fields do_effect_def upd_action_def)

lemma effects_disconnect_after_before_hook:
  "effects (snd (disconnect_after_before_hook cfg d (Hook_running d fn) res thrown now s)) =
     effects s @
       (if fn then case res of Inl err \<Rightarrow> [Log_error ''Error in beforeDisconnect hook'' err]
                   | Inr u \<Rightarrow> []
        else []) @
       (if transportHasDisconnect cfg then [Transport_disconnect] else []) @
       (if transportHasDisconnect cfg \<and> thrown \<noteq> None \<or> didCallConnectionTerminated s then []
        else Emit_disconnected #
               (if afterDisconnectHook (hooks s) then [Call_afterDisconnectHook] else []))"
  by (simp add: disconnect_after_before_hook_def Let_def split_beta effects_teardown
      effects_disconnect_finally do_effect_fields effects_beforeDisconnectHook_leave
      beforeDisconnectHook_leave_frame split: option.splits)

lemma effects_disconnect_after_teardown:
  "effects (snd (disconnect_after_teardown d res s)) =
     effects s @
       (case res of Inl err \<Rightarrow> [] | Inr u \<Rightarrow> [Log_stats ''ConnectionToCore.Disconnected''])"
  by (simp add: disconnect_after_teardown_def Let_def effects_disconnect_finally do_effect_fields
      split: sum.splits)

lemma run_Nil: "run cfg [] s = s"
  by (simp add: run_def)

lemma disconnect_call_alone:
  "disconnect_call cfg fatalError now [] beforeRes thrown now' [] afterRes s =
   disconnect_run cfg fatalError now beforeRes thrown now' afterRes s"
  unfolding disconnect_call_def disconnect_run_def run_Nil by (rule refl)

lemma disconnect_call_joined:
  "disconnect_call example_config None 200 [Call_connect reconnecting_connect 205]
     (Inr ()) None 210 [Call_disconnect None 215] (Inl hook_failure) st_connected =
   disconnect_run example_config None 200 (Inr ()) None 210 (Inl hook_failure) st_connected"
  by (simp add: st_connected_eq example_defs model_defs disconnect_call_def run_def)

lemma disconnect_call_before_hook_fails:
  "disconnect_call example_config None 200 [] (Inl hook_failure) None 210 [] (Inr ()) st_request =
     disconnect_run example_config None 200 (Inl hook_failure) None 210 (Inr ()) st_request"
  by (rule disconnect_call_alone)

lemma disconnect_throws_unlogged:
  "effects (snd (disconnect_after_before_hook example_config 1 (Hook_running 1 True)
                   (Inr ()) (Some hook_failure) 210 st_disconnecting))
     = effects st_disconnecting @ [Transport_disconnect]"
  by (simp add: st_disconnecting_eq example_defs model_defs)


subsection \<open>A request is settled once\<close>


























section \<open>Inbound routing\<close>

text \<open>
  C10. An inbound message that carries neither a \<^verbatim>\<open>responseId\<close> nor a \<^verbatim>\<open>listenerId\<close> or
  \<^verbatim>\<open>eventType\<close> key leaves the controller as it was: no pending entry is settled or removed,
  no event is emitted, no field changes.
\<close>

theorem onMessage_unclassified:
  "responseId m = None \<Longrightarrow> listenerId m = None \<Longrightarrow> eventType m = None \<Longrightarrow>
   onMessage cfg m s = s"
  by (simp add: onMessage_def)

theorem onMessage_unclassified_witness:
  "onMessage example_config unclassified_message st_request = st_request \<and>
   is_pending (pendingMessages st_request) ''1''"
  using onMessage_unclassified [of unclassified_message example_config st_request]
  by (simp add: unclassified_message_def st_request_eq is_pending_def)

text \<open>
  C6, as the claim states it, fails: a response for the pending request \<^verbatim>\<open>1\<close> whose error is
  named BrowserLaunchError and carries \<^verbatim>\<open>isDisconnecting: true\<close> is not replaced, but the
  request is not rejected with the error as it arrived either: \<^verbatim>\<open>onResponse\<close> has deleted
  its \<^verbatim>\<open>isDisconnecting\<close> property.
\<close>

theorem onMessage_response_counterexample:
  "is_pending (pendingMessages st_request) ''1'' \<and>
   isBrowserLaunchError launch_error \<and>
   outcome_of_request (pendingMessages (onMessage example_config launch_response st_request)) ''1''
     = Some (Rejected_with (ErrorObj ''BrowserLaunchError'' ''failed to launch'' None False)) \<and>
   outcome_of_request (pendingMessages (onMessage example_config launch_response st_request)) ''1''
     \<noteq> Some (Rejected_with launch_error)"
  by (simp add: st_request_eq launch_response_def launch_error_def onMessage_def onResponse_def
      pm_reject_def pm_settle_def pm_delete_def outcome_of_request_def is_pending_def
      isBrowserLaunchError_def SessionClosedOrMissingError_name_def Let_def)

text \<open>
  C6, amended. For an inbound response to a pending request: if the payload is an error and
  a disconnect action is present, or the error's name is SessionClosedOrMissingError, or its
  \<^verbatim>\<open>isDisconnecting\<close> is true, the request is rejected with a DisconnectedError carrying the
  transport's host, unless the error is named BrowserLaunchError or DependenciesMissingError;
  in that case, and for every other error, the request is rejected with the error it
  received, less its \<^verbatim>\<open>isDisconnecting\<close> property. A payload that is not an error resolves
  the request unchanged. In each case the entry leaves the registry.
\<close>

theorem onMessage_response:
  assumes "responseId m = Some i" and "is_pending (pendingMessages s) i"
  shows "settled (pendingMessages (onMessage cfg m s)) =
           settled (pendingMessages s) @
             [(i, case data m of
                    Err e \<Rightarrow>
                      Rejected_with
                        (if (disconnectAction s \<noteq> None \<or>
                             error_name e = ''SessionClosedOrMissingError'' \<or>
                             isDisconnecting_is_true e) \<and> \<not> isBrowserLaunchError e
                         then DisconnectedError (host cfg)
                         else delete_isDisconnecting e)
                  | d \<Rightarrow> Resolved_with d)] \<and>
         \<not> is_pending (pendingMessages (onMessage cfg m s)) i"
proof (cases "data m")
  case (Err e)
  with assms show ?thesis
    by (simp add: onMessage_def onResponse_def pm_reject_def pm_settle_pending
        isBrowserLaunchError_delete SessionClosedOrMissingError_name_def Let_def)
qed (use assms in \<open>simp_all add: onMessage_def onResponse_def pm_resolve_def pm_settle_pending\<close>)

theorem onMessage_response_witness:
  "settled (pendingMessages (onMessage example_config launch_response st_request)) =
     [(''1'', Rejected_with (ErrorObj ''BrowserLaunchError'' ''failed to launch'' None False))] \<and>
   settled (pendingMessages (onMessage example_config ok_response st_request)) =
     [(''1'', Resolved_with (Value ''pong''))] \<and>
   settled (pendingMessages
      (onMessage example_config
         \<lparr>responseId = Some ''1'', listenerId = None, eventType = None,
          data = Err (ErrorObj ''SessionClosedOrMissingError'' ''closed'' None False)\<rparr> st_request)) =
     [(''1'', Rejected_with (DisconnectedError ''core.example:1818''))]"
  using onMessage_response [of launch_response "''1''" st_request example_config]
    onMessage_response [of ok_response "''1''" st_request example_config]
    onMessage_response [of "\<lparr>responseId = Some ''1'', listenerId = None, eventType = None,
          data = Err (ErrorObj ''SessionClosedOrMissingError'' ''closed'' None False)\<rparr>" "''1''" st_request example_config]
  by (simp add: st_request_eq launch_response_def ok_response_def launch_error_def
      is_pending_def isBrowserLaunchError_def example_config_def default_config_def)

section \<open>connect\<close>

text \<open>
  C9. A call of \<^verbatim>\<open>connect(options)\<close> made while a connect action is live leaves the
  controller's state as it was; in particular \<^verbatim>\<open>autoReconnect\<close> keeps its value whatever
  \<^verbatim>\<open>shouldAutoReconnect\<close> the call passes.
\<close>

theorem connect_join_frame:
  "connectAction s = Some a \<Longrightarrow>
   snd (connect_enter cfg options now s) = s \<and>
   autoReconnect (snd (connect_enter cfg options now s)) = autoReconnect s"
  by (simp add: connect_enter_def)

theorem connect_join_frame_witness:
  "shouldAutoReconnect reconnecting_connect = Some True \<and>
   \<not> autoReconnect st_connecting_disconnecting \<and>
   snd (connect_enter example_config reconnecting_connect 115 st_connecting_disconnecting)
     = st_connecting_disconnecting \<and>
   snd (connect_enter example_config reconnecting_connect 115 st_connected) = st_connected"
  using connect_join_frame [of st_connecting_disconnecting 0 example_config reconnecting_connect 115]
    connect_join_frame [of st_connected 0 example_config reconnecting_connect 115]
  by (simp add: st_connecting_disconnecting_eq st_connected_eq reconnecting_connect_def)

text \<open>
  C1, as the claim states it, fails: with \<^verbatim>\<open>connect()\<close> awaiting the transport and the
  before-disconnect hook of a \<^verbatim>\<open>disconnect()\<close> running, a further \<^verbatim>\<open>connect()\<close> returns at
  once with nothing, which its caller observes as a success, while the live connect action
  is still pending.
\<close>

theorem connect_join_counterexample:
  "connectAction st_connecting_disconnecting = Some 0 \<and>
   connect_enter example_config explicit_connect 115 st_connecting_disconnecting
     = (Connect_returned Ret_void, st_connecting_disconnecting) \<and>
   observed st_connecting_disconnecting Ret_void = Some Resolved \<and>
   observed st_connecting_disconnecting (Ret_promise 0) = Some Pending"
  by (simp add: st_connecting_disconnecting_eq connect_enter_def calling_hook_def get_action_def
      observed_def outcome_of_action_def)

text \<open>
  C1, amended. The controller holds at most one connect action and one disconnect action.
  A call of \<^verbatim>\<open>connect()\<close> made while a connect action is live changes nothing and performs
  no transport connect, and so does any number of such calls; it returns that action's
  outcome, unless the hook of a disconnect action is running, in which case it returns at
  once with nothing. A call of
  \<^verbatim>\<open>disconnect()\<close> made while a disconnect action is live returns that action's outcome,
  and does nothing but set \<^verbatim>\<open>autoReconnect\<close> to false.
\<close>

theorem single_live_action:
  "(connectAction s = Some a \<longrightarrow>
      connect_enter cfg options now s =
        (Connect_returned (if calling_hook s (disconnectAction s) then Ret_void else Ret_promise a),
         s) \<and>
      run cfg (map (\<lambda>c. Call_connect (fst c) (snd c)) calls) s = s) \<and>
   (disconnectAction s = Some d \<longrightarrow>
      disconnect_enter cfg fatalError now s =
        (Disconnect_returned (Ret_promise d), s\<lparr>autoReconnect := False\<rparr>) \<and>
      effects (snd (disconnect_enter cfg fatalError now s)) = effects s \<and>
      observed (snd (disconnect_enter cfg fatalError now s)) (Ret_promise d) =
        observed s (Ret_promise d))"
proof -
  have "run cfg (map (\<lambda>c. Call_connect (fst c) (snd c)) calls) s = s"
    if "connectAction s = Some a"
    using that by (induction calls) (simp_all add: run_def connect_enter_def)
  then show ?thesis
    by (simp add: connect_enter_def disconnect_enter_def observed_def outcome_of_action_def
        get_action_def)
qed

theorem single_live_action_witness:
  "connect_enter example_config explicit_connect 105 st_connecting
     = (Connect_returned (Ret_promise 0), st_connecting) \<and>
   run example_config
     [Call_connect explicit_connect 105, Call_connect reconnecting_connect 106] st_connecting
     = st_connecting \<and>
   connect_enter example_config explicit_connect 115 st_connecting_disconnecting
     = (Connect_returned Ret_void, st_connecting_disconnecting) \<and>
   disconnect_enter example_config None 115 st_connecting_disconnecting
     = (Disconnect_returned (Ret_promise 1), st_connecting_disconnecting)"
  using single_live_action [of st_connecting 0 example_config explicit_connect 105
      "[(explicit_connect, 105), (reconnecting_connect, 106)]"]
    single_live_action [of st_connecting_disconnecting 0 example_config explicit_connect 115
      "[]" 1 None]
  by (simp add: st_connecting_eq st_connecting_disconnecting_eq calling_hook_def get_action_def)

text \<open>
  C8, as the claim states it, fails in its last part: when the transport's connect fails
  while the before-disconnect hook of a \<^verbatim>\<open>disconnect()\<close> is running, the action is rejected
  and the field cleared, but the next \<^verbatim>\<open>connect()\<close> returns at once and starts no attempt.
\<close>

theorem connect_failure_counterexample:
  "st_connect_failed = snd (connect_after_transport 0 (Inl connect_refused) st_connecting_disconnecting) \<and>
   connectAction st_connect_failed = None \<and>
   observed st_connect_failed (Ret_promise 0) = Some (Rejected connect_refused) \<and>
   connect_enter example_config explicit_connect 130 st_connect_failed
     = (Connect_returned Ret_void, st_connect_failed)"
  by (simp add: st_connect_failed_def)
    (simp add: st_connect_failed_def [symmetric] st_connect_failed_eq connect_enter_def
      calling_hook_def get_action_def observed_def outcome_of_action_def)

text \<open>
  C8, amended. When the transport's connect or the after-connect function fails with \<open>err\<close>
  in a \<^verbatim>\<open>connect()\<close> whose action is still pending, the call returns the action's promise,
  the action is rejected with \<open>err\<close> and the connect action field is cleared. A
  \<^verbatim>\<open>connect()\<close> that follows does not join the failed action: it starts an attempt with a
  new action (and calls the transport's connect), unless the hook of a disconnect action is
  running, in which case it returns at once.
\<close>

theorem connect_failure:
  assumes pend: "outcome_of_action s a = Some Pending"
    and fail: "(r, s') = connect_after_transport a (Inl err) s \<or>
               (r, s') = connect_after_hook a (Hook_running b True) (Inl err) s"
  shows "r = Connect_returned (Ret_promise a) \<and>
         observed s' (Ret_promise a) = Some (Rejected err) \<and>
         connectAction s' = None \<and>
         fst (connect_enter cfg options now s') =
           (if calling_hook s' (disconnectAction s') then Connect_returned Ret_void
            else Connect_await_transport (length (heap s'))) \<and>
         a < length (heap s') \<and>
         (\<not> calling_hook s' (disconnectAction s') \<and> transportHasConnect cfg \<longrightarrow>
            effects (snd (connect_enter cfg options now s')) =
              effects s' @ [Transport_connect (timeoutMs options)])"
proof -
  define s0 where
    "s0 = (if (r, s') = connect_after_transport a (Inl err) s then s
           else afterConnectHook_leave (Hook_running b True) s)"
  have p0: "outcome_of_action s0 a = Some Pending"
    using pend by (simp add: s0_def afterConnectHook_leave_pending)
  have rs: "(r, s') = connect_catch a err s0"
    using fail by (auto simp: s0_def connect_after_transport_def connect_after_hook_def
        hook_result_def Let_def)
  then have r: "r = fst (connect_catch a err s0)" and s': "s' = snd (connect_catch a err s0)"
    by (metis fst_conv, metis snd_conv)
  note c = connect_catch_rejects [OF p0, of err, folded r s']
  have len: "a < length (heap s')"
    using c(3) by (simp add: outcome_of_action_def get_action_def split: if_splits)
  from c(2) have none: "connectAction s' = None" .
  show ?thesis
    using c(1,3) none len connect_enter_fresh(1) [OF none, of cfg options now]
      connect_enter_fresh(2) [OF none, of cfg options now]
    by (simp add: observed_def)
qed

theorem connect_failure_witness:
  "outcome_of_action st_connecting 0 = Some Pending \<and>
   observed (snd (connect_after_transport 0 (Inl connect_refused) st_connecting)) (Ret_promise 0)
     = Some (Rejected connect_refused) \<and>
   connectAction (snd (connect_after_transport 0 (Inl connect_refused) st_connecting)) = None \<and>
   fst (connect_enter example_config explicit_connect 130
          (snd (connect_after_transport 0 (Inl connect_refused) st_connecting)))
     = Connect_await_transport 1 \<and>
   effects (snd (connect_enter example_config explicit_connect 130
          (snd (connect_after_transport 0 (Inl connect_refused) st_connecting))))
     = [Transport_connect None, Transport_connect None]"
  using connect_failure [of st_connecting 0
      "fst (connect_after_transport 0 (Inl connect_refused) st_connecting)"
      "snd (connect_after_transport 0 (Inl connect_refused) st_connecting)"
      connect_refused 0 example_config explicit_connect 130]
  by (simp add: st_connecting_failed calling_hook_def explicit_connect_def example_config_def
      default_config_def)
    (simp add: st_connecting_eq outcome_of_action_def get_action_def)

section \<open>sendRequest\<close>

text \<open>
  C7. When what \<^verbatim>\<open>sendRequest\<close> awaits fails with \<open>err\<close>, the pending entry is removed from
  the registry; the call returns \<^verbatim>\<open>undefined\<close> if a disconnect action is present and \<open>err\<close>
  is a CanceledPromiseError, and throws \<open>err\<close> otherwise.
\<close>

theorem sendRequest_failure:
  "sendRequest_settle cfg i activeConnectHook activeDisconnectHook (Inl err) s = (r, s') \<Longrightarrow>
   \<not> is_pending (pendingMessages s') i \<and>
   r = (if disconnectAction s \<noteq> None \<and>
           instanceof_CanceledPromiseError (disconnectedIsCanceled cfg) err
        then Send_returned Undefined else Send_threw err)"
  by (auto simp: sendRequest_settle_def pendingMessages_set_hookMessageId not_pending_pm_delete
      Let_def split: if_splits)

theorem sendRequest_failure_witness:
  "is_pending (pendingMessages st_request) ''1'' \<and>
   \<not> is_pending
       (pendingMessages
         (snd (sendRequest_settle example_config ''1'' None None (Inl canceled_error) st_request)))
       ''1'' \<and>
   fst (sendRequest_settle example_config ''1'' None None (Inl canceled_error) st_request)
     = Send_threw canceled_error \<and>
   fst (sendRequest_settle example_config ''1'' None None (Inl canceled_error) st_disconnecting)
     = Send_returned Undefined \<and>
   fst (sendRequest_settle example_config ''1'' None None (Inl hook_failure) st_disconnecting)
     = Send_threw hook_failure"
  using sendRequest_failure [of example_config "''1''" None None canceled_error st_request
      "fst (sendRequest_settle example_config ''1'' None None (Inl canceled_error) st_request)"
      "snd (sendRequest_settle example_config ''1'' None None (Inl canceled_error) st_request)"]
    sendRequest_failure [of example_config "''1''" None None canceled_error st_disconnecting
      "fst (sendRequest_settle example_config ''1'' None None (Inl canceled_error) st_disconnecting)"
      "snd (sendRequest_settle example_config ''1'' None None (Inl canceled_error) st_disconnecting)"]
    sendRequest_failure [of example_config "''1''" None None hook_failure st_disconnecting
      "fst (sendRequest_settle example_config ''1'' None None (Inl hook_failure) st_disconnecting)"
      "snd (sendRequest_settle example_config ''1'' None None (Inl hook_failure) st_disconnecting)"]
  by (simp add: st_request_eq st_disconnecting_eq is_pending_def canceled_error_def
      hook_failure_def)

section \<open>shouldAutoConnect\<close>

text \<open>
  C5. \<^verbatim>\<open>shouldAutoConnect()\<close> is false if auto-reconnect is disabled, or a connect action is
  live, or the disconnect action's hook has a request in flight (its \<^verbatim>\<open>hookMessageId\<close> is
  set). Otherwise it is true if there has never been a disconnect; and after a disconnect it
  is true exactly when the time since then has reached the minimum interval, 1000 ms by
  default, and false when the interval is NaN. Moreover, in every state the controller
  reaches from a new one, it is false whenever the hook of a disconnect action is running,
  with or without a request in flight, since auto-reconnect is disabled as long as a
  disconnect action exists.
\<close>

theorem shouldAutoConnect_policy:
  "(\<not> autoReconnect s \<longrightarrow> \<not> shouldAutoConnect cfg now s) \<and>
   (connectAction s \<noteq> None \<longrightarrow> \<not> shouldAutoConnect cfg now s) \<and>
   (hook_request s (disconnectAction s) \<noteq> None \<longrightarrow> \<not> shouldAutoConnect cfg now s) \<and>
   (autoReconnect s \<and> connectAction s = None \<and> hook_request s (disconnectAction s) = None \<longrightarrow>
      (lastDisconnectDate s = None \<longrightarrow> shouldAutoConnect cfg now s) \<and>
      (\<forall>t. lastDisconnectDate s = Some t \<longrightarrow>
         (\<forall>m. MinimumAutoReconnectMillis cfg = Num m \<longrightarrow>
               shouldAutoConnect cfg now s = (now - t \<ge> m)) \<and>
         (MinimumAutoReconnectMillis cfg = NaN \<longrightarrow> \<not> shouldAutoConnect cfg now s))) \<and>
   MinimumAutoReconnectMillis (default_config h) = Num 1000 \<and>
   (calling_hook (run cfg xs (new_controller hs))
      (disconnectAction (run cfg xs (new_controller hs))) \<longrightarrow>
    \<not> shouldAutoConnect cfg now (run cfg xs (new_controller hs)))"
proof -
  have "\<not> shouldAutoConnect cfg now (run cfg xs (new_controller hs))"
    if "calling_hook (run cfg xs (new_controller hs))
          (disconnectAction (run cfg xs (new_controller hs)))"
    using calling_hook_present [OF that] run_new_controller [of cfg xs hs]
    by (simp add: shouldAutoConnect_def)
  then show ?thesis
    by (simp add: shouldAutoConnect_def default_config_def)
qed

lemma st_connecting_disconnecting_run:
  "run example_config [Call_connect explicit_connect 100, Call_disconnect None 110]
     (new_controller example_hooks) = st_connecting_disconnecting"
  by (simp add: run_def st_connecting_disconnecting_def st_connecting_def)

theorem shouldAutoConnect_policy_witness:
  "\<not> shouldAutoConnect example_config 120 st_connecting_disconnecting \<and>
   \<not> shouldAutoConnect example_config 120 st_connected \<and>
   shouldAutoConnect example_config 0 (new_controller example_hooks) \<and>
   \<not> shouldAutoConnect example_config 1999 st_lost \<and>
   shouldAutoConnect example_config 2000 st_lost \<and>
   \<not> shouldAutoConnect (example_config\<lparr>MinimumAutoReconnectMillis := NaN\<rparr>) 2000 st_lost \<and>
   calling_hook st_connecting_disconnecting (disconnectAction st_connecting_disconnecting) \<and>
   hook_request st_connecting_disconnecting (disconnectAction st_connecting_disconnecting) = None"
  using shouldAutoConnect_policy [of st_connecting_disconnecting example_config 120 _
      "[Call_connect explicit_connect 100, Call_disconnect None 110]" example_hooks]
    shouldAutoConnect_policy [of st_connected example_config 120]
    shouldAutoConnect_policy [of "new_controller example_hooks" example_config 0]
    shouldAutoConnect_policy [of st_lost example_config 1999 "''core.example:1818''"]
    shouldAutoConnect_policy [of st_lost example_config 2000 "''core.example:1818''"]
    shouldAutoConnect_policy [of st_lost "example_config\<lparr>MinimumAutoReconnectMillis := NaN\<rparr>" 2000]
  by (simp add: st_connecting_disconnecting_run)
    (simp add: st_connecting_disconnecting_eq st_connected_eq st_lost_eq new_controller_def
      example_config_def default_config_def hook_request_def calling_hook_def get_action_def)

section \<open>The connection-terminated teardown\<close>




text \<open>
  C3, as the claim states it, fails: the teardown awaits the after-disconnect hook outside
  any \<^verbatim>\<open>try\<close>, so when the hook fails the teardown fails with the same error.
\<close>

theorem teardown_hook_error_counterexample:
  "onConnectionTerminated_outcome
     (fst (onConnectionTerminated_enter example_config 1000 st_connected)) (Inl hook_failure)
   = Inl hook_failure"
  by (simp add: st_connected_eq example_hooks_def onConnectionTerminated_enter_def
      settle_connect_hook_request_def settle_disconnect_hook_request_def
      onConnectionTerminated_outcome_def hook_request_def get_action_def do_effect_def Let_def)

text \<open>
  C3, amended. The teardown calls the after-disconnect hook exactly when it has not run
  already and a hook is configured, after emitting \<^verbatim>\<open>disconnected\<close>; it then settles with
  what the hook settles with, so an error of the hook is the teardown's error. Otherwise
  the teardown succeeds.
\<close>

theorem teardown_hook_error_propagates:
  "onConnectionTerminated_enter cfg now s = (called, s') \<Longrightarrow>
   called = (\<not> didCallConnectionTerminated s \<and> afterDisconnectHook (hooks s)) \<and>
   (called \<longrightarrow> effects s' = effects s @ [Emit_disconnected, Call_afterDisconnectHook]) \<and>
   onConnectionTerminated_outcome called res = (if called then res else Inr ())"
  by (auto simp: onConnectionTerminated_enter_def onConnectionTerminated_outcome_def Let_def
      settle_connect_hook_request_def settle_disconnect_hook_request_def
      do_effect_def effects_onResponse hooks_onResponse split: if_splits option.splits)

theorem teardown_hook_error_propagates_witness:
  "onConnectionTerminated_enter example_config 1000 st_connected = (True, st_lost) \<and>
   onConnectionTerminated_outcome True (Inl hook_failure) = Inl hook_failure \<and>
   effects st_lost = effects st_connected @ [Emit_disconnected, Call_afterDisconnectHook] \<and>
   onConnectionTerminated_enter example_config 1001 st_lost = (False, st_lost) \<and>
   onConnectionTerminated_outcome False (Inl hook_failure) = Inr ()"
  using teardown_hook_error_propagates [OF teardown_connected, of "Inl hook_failure"]
    teardown_hook_error_propagates [OF teardown_again, of "Inl hook_failure"]
    teardown_connected teardown_again
  by simp

section \<open>disconnect\<close>

text \<open>
  C4, as the claim states it, fails: when the after-disconnect hook fails, the call of
  \<^verbatim>\<open>disconnect()\<close> throws that error after its \<^verbatim>\<open>finally\<close> block, so the caller's promise
  is rejected, and nothing is logged.
\<close>

theorem disconnect_settles_counterexample:
  "fst (disconnect_run example_config None 200 (Inr ()) None 210 (Inl hook_failure) st_connected)
     = Disconnect_threw hook_failure \<and>
   effects (snd (disconnect_run example_config None 200 (Inr ()) None 210 (Inl hook_failure)
                   st_connected))
     = [Transport_connect None, Call_afterConnectFn 0, Emit_connected,
        Log_stats ''ConnectionToCore.Disconnecting'', Call_beforeDisconnectFn 1,
        Transport_disconnect, Emit_disconnected, Call_afterDisconnectHook]"
  by (simp add: disconnect_run_after_hook_fails)

text \<open>
  C4, amended. A call of \<^verbatim>\<open>disconnect()\<close> that starts a disconnect action always resolves
  that action's outcome, in its \<^verbatim>\<open>finally\<close> block, whatever other calls run while it
  waits. A failure of the before-disconnect function is logged and the call goes on. If the
  transport's \<^verbatim>\<open>disconnect\<close> throws, or the teardown fails (its after-disconnect hook does),
  the call itself throws that error and nothing is logged; otherwise it returns the
  action's promise. What each stretch of the call does to the outside is stated in full:
  the only error it logs is that of the before-disconnect function.
\<close>

theorem disconnect_settles:
  assumes new: "disconnectAction s = None"
    and others: "\<forall>x \<in> set xs1 \<union> set xs2. local_action x \<noteq> Some (length (heap s))"
    and call: "disconnect_call cfg fatalError now xs1 beforeRes thrown now' xs2 afterRes s = (r, s')"
  shows "outcome_of_action s' (length (heap s)) = Some Resolved \<and>
         r = (case (if transportHasDisconnect cfg then thrown else None) of
                Some err \<Rightarrow> Disconnect_threw err
              | None \<Rightarrow>
                  (case (if \<not> didCallConnectionTerminated
                                 (run cfg xs1 (snd (disconnect_enter cfg fatalError now s))) \<and>
                            afterDisconnectHook
                              (hooks (run cfg xs1 (snd (disconnect_enter cfg fatalError now s))))
                         then afterRes else Inr ()) of
                     Inl err \<Rightarrow> Disconnect_threw err
                   | Inr u \<Rightarrow> Disconnect_returned (Ret_promise (length (heap s))))) \<and>
         effects (snd (disconnect_enter cfg fatalError now s)) =
           effects s @ Log_stats ''ConnectionToCore.Disconnecting'' #
             (if beforeDisconnectFn (hooks s) then [Call_beforeDisconnectFn (length (heap s))]
              else []) \<and>
         effects (snd (disconnect_after_before_hook cfg (length (heap s))
                         (Hook_running (length (heap s)) (beforeDisconnectFn (hooks s)))
                         beforeRes thrown now' t)) =
           effects t @
             (if beforeDisconnectFn (hooks s)
              then case beforeRes of
                     Inl err \<Rightarrow> [Log_error ''Error in beforeDisconnect hook'' err]
                   | Inr u \<Rightarrow> []
              else []) @
             (if transportHasDisconnect cfg then [Transport_disconnect] else []) @
             (if transportHasDisconnect cfg \<and> thrown \<noteq> None \<or> didCallConnectionTerminated t
              then []
              else Emit_disconnected #
                     (if afterDisconnectHook (hooks t) then [Call_afterDisconnectHook] else [])) \<and>
         effects (snd (disconnect_after_teardown (length (heap s)) res u)) =
           effects u @
             (case res of Inl err \<Rightarrow> []
              | Inr v \<Rightarrow> [Log_stats ''ConnectionToCore.Disconnected''])"
proof -
  define d where "d = length (heap s)"
  define h where "h = Hook_running d (beforeDisconnectFn (hooks s))"
  obtain c1 s1 where e1: "disconnect_enter cfg fatalError now s = (c1, s1)"
    by (cases "disconnect_enter cfg fatalError now s")
  note n = disconnect_enter_new [OF new e1, folded d_def]
  have c1: "c1 = Disconnect_await_before_hook d h"
    using n(1) by (simp add: h_def)
  define t1 where "t1 = run cfg xs1 s1"
  have p1: "outcome_of_action s1 d = Some Pending"
    using n(2,3) by (simp add: outcome_of_action_Some)
  have "outcome_of_action t1 d = Some Pending"
    unfolding t1_def using others p1 by (intro run_keeps_action) (simp_all add: d_def)
  then have pt: "d < length (heap t1)" "resolvable (heap t1 ! d) = Pending"
    by (simp_all add: outcome_of_action_Some)
  obtain c2 s2 where e2: "disconnect_after_before_hook cfg d h beforeRes thrown now' t1 = (c2, s2)"
    by (cases "disconnect_after_before_hook cfg d h beforeRes thrown now' t1")
  note st = disconnect_after_before_hook_step(1) [OF pt e2]
  have main: "outcome_of_action s' d = Some Resolved \<and>
         r = (case (if transportHasDisconnect cfg then thrown else None) of
                Some err \<Rightarrow> Disconnect_threw err
              | None \<Rightarrow>
                  (case (if \<not> didCallConnectionTerminated t1 \<and> afterDisconnectHook (hooks t1)
                         then afterRes else Inr ()) of
                     Inl err \<Rightarrow> Disconnect_threw err
                   | Inr u \<Rightarrow> Disconnect_returned (Ret_promise d)))"
  proof (cases "if transportHasDisconnect cfg then thrown else None")
    case (Some err)
    with st have "c2 = Disconnect_threw err" "outcome_of_action s2 d = Some Resolved"
      by simp_all
    moreover from this call e1 e2 c1 have "r = c2" "s' = s2"
      by (simp_all add: disconnect_call_def t1_def)
    ultimately show ?thesis using Some by simp
  next
    case None
    define called where
      "called = (\<not> didCallConnectionTerminated t1 \<and> afterDisconnectHook (hooks t1))"
    from None st
    have c2: "c2 = Disconnect_await_teardown d called"
      and p2: "outcome_of_action s2 d = Some Pending"
      by (simp_all add: called_def outcome_of_action_Some)
    define t2 where "t2 = run cfg xs2 s2"
    have "outcome_of_action t2 d = Some Pending"
      unfolding t2_def using others p2 by (intro run_keeps_action) (simp_all add: d_def)
    then have pu: "d < length (heap t2)" "resolvable (heap t2 ! d) = Pending"
      by (simp_all add: outcome_of_action_Some)
    from call e1 e2 c1 c2
    have e3: "disconnect_after_teardown d (onConnectionTerminated_outcome called afterRes) t2
              = (r, s')"
      by (simp add: disconnect_call_def t1_def t2_def)
    note fin = disconnect_after_teardown_step(1,2) [OF pu e3]
    from fin None show ?thesis
      unfolding called_def
      by (auto simp: onConnectionTerminated_outcome_def split: sum.splits)
  qed
  have s1: "s1 = snd (disconnect_enter cfg fatalError now s)"
    using e1 by simp
  show ?thesis
    using main
    unfolding d_def t1_def s1
    by (simp add: effects_disconnect_enter [OF new] effects_disconnect_after_before_hook
        effects_disconnect_after_teardown)
qed

theorem disconnect_settles_witness:
  "fst (disconnect_call example_config None 200 [] (Inl hook_failure) None 210 [] (Inr ())
          st_request)
     = Disconnect_returned (Ret_promise 1) \<and>
   outcome_of_action
     (snd (disconnect_call example_config None 200 [] (Inl hook_failure) None 210 [] (Inr ())
             st_request))
     1 = Some Resolved \<and>
   fst (disconnect_call example_config None 200 [Call_connect reconnecting_connect 205]
          (Inr ()) None 210 [Call_disconnect None 215] (Inl hook_failure) st_connected)
     = Disconnect_threw hook_failure \<and>
   outcome_of_action
     (snd (disconnect_call example_config None 200 [Call_connect reconnecting_connect 205]
          (Inr ()) None 210 [Call_disconnect None 215] (Inl hook_failure) st_connected))
     1 = Some Resolved \<and>
   effects (snd (disconnect_after_before_hook example_config 1 (Hook_running 1 True)
                   (Inr ()) (Some hook_failure) 210 st_disconnecting))
     = effects st_disconnecting @ [Transport_disconnect]"
proof -
  have n1: "disconnectAction st_request = None" and n2: "disconnectAction st_connected = None"
    by (simp_all add: st_request_eq st_connected_eq)
  have o1: "\<forall>x \<in> set [] \<union> set []. local_action x \<noteq> Some (length (heap st_request))"
    by simp
  have o2: "\<forall>x \<in> set [Call_connect reconnecting_connect 205] \<union> set [Call_disconnect None 215].
              local_action x \<noteq> Some (length (heap st_connected))"
    by simp
  note w1 = disconnect_settles [where cfg = example_config and fatalError = None and now = 200
      and beforeRes = "Inl hook_failure" and thrown = None and now' = 210 and afterRes = "Inr ()"
      and t = st_disconnecting and res = "Inr ()" and u = st_disconnecting,
      OF n1 o1 prod.collapse [symmetric]]
  note w2 = disconnect_settles [where cfg = example_config and fatalError = None and now = 200
      and beforeRes = "Inr ()" and thrown = None and now' = 210 and afterRes = "Inl hook_failure"
      and t = st_disconnecting and res = "Inr ()" and u = st_disconnecting,
      OF n2 o2 prod.collapse [symmetric]]
  have l1: "length (heap st_request) = 1" and l2: "length (heap st_connected) = 1"
    by (simp_all add: st_request_eq st_connected_eq)
  from w1 w2 show ?thesis
    unfolding l1 l2
    by (simp add: disconnect_call_before_hook_fails disconnect_call_joined
        disconnect_run_before_hook_fails disconnect_run_after_hook_fails
        disconnect_throws_unlogged [unfolded One_nat_def] outcome_of_action_def get_action_def)
qed

end
